theory Spec2Isabelle
  imports Main
begin

section \<open>Statuses and call outcomes\<close>

text \<open>
  The source reports failures as \<open>Status\<close> values: an error code and a message.
  \<open>StatusOr<T>\<close> is the sum \<open>status + T\<close>, with \<open>Inl\<close> the error. A function that
  returns a bare \<open>Status\<close> is modelled by \<open>status option\<close>, \<open>None\<close> being \<open>Status::OK()\<close>.
\<close>

datatype error_code = InvalidArgument | NotFound | Internal | ResourceExhausted | Unknown

datatype status = Status (status_code: error_code) (status_message: string)

text \<open>
  A call of the C++ code can also end without returning: \<open>absl::optional::value()\<close> on an
  empty optional raises \<open>bad_optional_access\<close> in the calling thread, \<open>LOG(FATAL)\<close>
  terminates the process, an exception that escapes a worker thread terminates the
  process too (\<open>std::terminate\<close>), and the unchecked \<open>operator*\<close> on an empty optional has
  no defined behaviour at all.
\<close>

datatype 'a outcome =
    Returns 'a
  | BadOptionalAccess
  | Fatal
  | Terminated
  | Undefined

text \<open>How a call that did not return ends the caller as well.\<close>

fun abnormal :: "'a outcome \<Rightarrow> 'b outcome" where
  "abnormal BadOptionalAccess = BadOptionalAccess"
| "abnormal Fatal = Fatal"
| "abnormal Terminated = Terminated"
| "abnormal Undefined = Undefined"
| "abnormal (Returns x) = Undefined"

section \<open>Shapes\<close>

text \<open>
  Modelled from the spec: \<open>Shape\<close> and its accessors (shape.h is not among the sources). A
  shape is either an array, with an element type, its dimensions and an optional layout
  (the minor-to-major order of the dimensions), or a tuple of shapes. A \<open>ShapeIndex\<close> is a
  path into the tuples.
\<close>

datatype primitive_type = PRED | S32 | S64 | F32 | F64

type_synonym layout = "nat list"

datatype shape =
    Array primitive_type "nat list" "layout option"
  | Tuple "shape list"

type_synonym ShapeIndex = "nat list"

fun IsTuple :: "shape \<Rightarrow> bool" where
  "IsTuple (Tuple ss) = True"
| "IsTuple (Array t ds l) = False"

fun IsArray :: "shape \<Rightarrow> bool" where
  "IsArray (Array t ds l) = True"
| "IsArray (Tuple ss) = False"

fun has_layout :: "shape \<Rightarrow> bool" where
  "has_layout (Array t ds l) = (l \<noteq> None)"
| "has_layout (Tuple ss) = False"

text \<open>
  Modelled from the spec: \<open>LayoutUtil::SetToDefaultLayout\<close> and \<open>LayoutUtil::ClearLayout\<close>
  (layout_util.cc is not among the sources). The default layout of an array is the
  descending minor-to-major order of its dimensions; clearing removes the layout of every
  array subshape.
\<close>

fun SetToDefaultLayout :: "shape \<Rightarrow> shape" where
  "SetToDefaultLayout (Array t ds l) = Array t ds (Some (rev [0..<length ds]))"
| "SetToDefaultLayout (Tuple ss) = Tuple (map SetToDefaultLayout ss)"

fun ClearLayout :: "shape \<Rightarrow> shape" where
  "ClearLayout (Array t ds l) = Array t ds None"
| "ClearLayout (Tuple ss) = Tuple (map ClearLayout ss)"

section \<open>Build options and device assignments\<close>

text \<open>
  A \<open>DeviceAssignment\<close> is a grid from (replica, computation) to a device ordinal,
  modelled by its lookup together with its two extents.
\<close>

record ExecutableBuildOptions =
  result_layout :: "shape option"
  num_replicas :: nat

record DeviceAssignment =
  replica_count :: nat
  computation_count :: nat
  device_at :: "nat \<Rightarrow> nat \<Rightarrow> int"

section \<open>Device memory and buffers\<close>

text \<open>
  \<open>se::DeviceMemoryBase\<close> is an opaque device pointer with a size; the default-constructed
  value is the null region. A \<open>ShapeTree<se::DeviceMemoryBase>\<close> is modelled by its lookup
  from shape indices to regions; indices outside the buffer's shape are never read.
\<close>

datatype DeviceMemoryBase = DeviceMemoryBase (opaque: nat) (mem_size: nat)

definition null_memory :: DeviceMemoryBase where
  "null_memory = DeviceMemoryBase 0 0"

type_synonym buffer_tree = "ShapeIndex \<Rightarrow> DeviceMemoryBase"

record ShapedBuffer =
  on_host_shape :: shape
  on_device_shape :: shape
  platform :: nat
  device_ordinal :: int
  buffers :: buffer_tree

record ScopedShapedBuffer = ShapedBuffer +
  memory_allocator :: nat

text \<open>
  \<open>PyLocalBuffer\<close> holds \<open>absl::optional<ScopedShapedBuffer> shaped_buffer_\<close>; its
  \<open>client_\<close> pointer is passed to the operations as an argument of its own. A member
  \<open>x_\<close> of the source is the field \<open>x_mem\<close>.
\<close>

record PyLocalBuffer =
  shaped_buffer_mem :: "ScopedShapedBuffer option"

definition new_PyLocalBuffer :: "ScopedShapedBuffer \<Rightarrow> PyLocalBuffer" where
  "new_PyLocalBuffer sb = \<lparr>shaped_buffer_mem = Some sb\<rparr>"

text \<open>
  Modelled from the spec: \<open>ShapeUtil::TupleElementCount\<close>, \<open>ShapeUtil::GetSubshape\<close> at a
  one-element index, \<open>ShapeUtil::ForEachSubshape\<close> and \<open>ShapeUtil::GetLeafShapes\<close>
  (shape_util.cc is not among the sources). Subshapes are enumerated depth-first in
  pre-order, the shape itself first at the empty index; the leaves are the subshapes that
  are not tuples, in that order.
\<close>

fun tuple_shapes :: "shape \<Rightarrow> shape list" where
  "tuple_shapes (Tuple ss) = ss"
| "tuple_shapes (Array t ds l) = []"

definition TupleElementCount :: "shape \<Rightarrow> nat" where
  "TupleElementCount s = length (tuple_shapes s)"

fun ForEachSubshape :: "shape \<Rightarrow> (shape \<times> ShapeIndex) list"
  and ForEachSubshape_from :: "nat \<Rightarrow> shape list \<Rightarrow> (shape \<times> ShapeIndex) list" where
  "ForEachSubshape (Array t ds l) = [(Array t ds l, [])]"
| "ForEachSubshape (Tuple ss) = (Tuple ss, []) # ForEachSubshape_from 0 ss"
| "ForEachSubshape_from i [] = []"
| "ForEachSubshape_from i (s # ss) =
     map (\<lambda>(sub, index). (sub, i # index)) (ForEachSubshape s) @ ForEachSubshape_from (Suc i) ss"

definition GetLeafShapes :: "shape \<Rightarrow> (shape \<times> ShapeIndex) list" where
  "GetLeafShapes s = filter (\<lambda>(sub, index). \<not> IsTuple sub) (ForEachSubshape s)"

text \<open>
  \<open>PyLocalBuffer::shaped_buffer()\<close> is \<open>&shaped_buffer_.value()\<close>: the checked access, which
  raises on a consumed buffer. \<open>PyLocalBuffer::shape()\<close> goes through it.
\<close>

definition shaped_buffer :: "PyLocalBuffer \<Rightarrow> ScopedShapedBuffer outcome" where
  "shaped_buffer b =
     (case shaped_buffer_mem b of None \<Rightarrow> BadOptionalAccess | Some sb \<Rightarrow> Returns sb)"

definition shape_of :: "PyLocalBuffer \<Rightarrow> shape outcome" where
  "shape_of b =
     (case shaped_buffer b of
        Returns sb \<Rightarrow> Returns (on_device_shape sb)
      | other \<Rightarrow> abnormal other)"

text \<open>
  \<open>PyLocalBuffer::Release\<close> moves out of \<open>*shaped_buffer_\<close>, the unchecked access, and
  empties the optional. It returns a \<open>ScopedShapedBuffer\<close>, not a \<open>StatusOr\<close>. The pair is
  the returned value and the buffer afterwards.
\<close>

definition Release :: "PyLocalBuffer \<Rightarrow> ScopedShapedBuffer outcome \<times> PyLocalBuffer" where
  "Release b =
     (case shaped_buffer_mem b of
        None \<Rightarrow> (Undefined, b\<lparr>shaped_buffer_mem := None\<rparr>)
      | Some sb \<Rightarrow> (Returns sb, b\<lparr>shaped_buffer_mem := None\<rparr>))"

text \<open>
  \<open>PyLocalBuffer::DestructureTuple\<close>. The visitor passed to \<open>ForEachSubshape\<close> moves one
  region: it reads the parent's tree at \<open>original = i # index\<close>, stores the region in the
  child at \<open>index\<close> and overwrites the parent's entry with the null region.
\<close>

definition move_region ::
  "nat \<Rightarrow> buffer_tree \<times> buffer_tree \<Rightarrow> ShapeIndex \<Rightarrow> buffer_tree \<times> buffer_tree" where
  "move_region i trees index =
     (let shape_tree = fst trees;
          child = snd trees;
          original = i # index;
          device_memory = shape_tree original
      in (shape_tree(original := null_memory), child(index := device_memory)))"

text \<open>
  One iteration of the loop over the tuple elements: a \<open>ShapedBuffer\<close> for element \<open>i\<close>,
  all of its regions null at first, is filled by the visitor and pushed to \<open>results\<close>.
\<close>

definition destructure_element ::
  "nat \<Rightarrow> int \<Rightarrow> nat \<Rightarrow> shape \<Rightarrow> buffer_tree \<times> PyLocalBuffer list \<Rightarrow> nat \<Rightarrow>
     buffer_tree \<times> PyLocalBuffer list" where
  "destructure_element plat ordinal allocator tuple_shape state i =
     (let shape_tree = fst state;
          results = snd state;
          subshape = tuple_shapes tuple_shape ! i;
          moved = foldl (move_region i) (shape_tree, \<lambda>index. null_memory)
                    (map snd (ForEachSubshape subshape))
      in (fst moved,
          results @ [new_PyLocalBuffer
            \<lparr>on_host_shape = subshape, on_device_shape = subshape, platform = plat,
             device_ordinal = ordinal, buffers = snd moved, memory_allocator = allocator\<rparr>]))"

text \<open>
  The whole loop, from the tree of the released \<open>tuple_buffer\<close>: the pair is that tree
  as the loop leaves it (the local \<open>tuple_buffer\<close> goes out of scope with it) and the
  children.
\<close>

definition destructure_elements ::
  "shape \<Rightarrow> ScopedShapedBuffer \<Rightarrow> nat \<Rightarrow> buffer_tree \<times> PyLocalBuffer list" where
  "destructure_elements tuple_shape tuple_buffer allocator =
     foldl (destructure_element (platform tuple_buffer) (device_ordinal tuple_buffer)
              allocator tuple_shape)
       (buffers tuple_buffer, []) [0..<TupleElementCount tuple_shape]"

text \<open>
  The result is what the call returns and the buffer afterwards. The message of the
  \<open>InvalidArgument\<close> status is the format text; the printed shape is left out.
\<close>

definition DestructureTuple ::
  "PyLocalBuffer \<Rightarrow> (status + PyLocalBuffer list) outcome \<times> PyLocalBuffer" where
  "DestructureTuple b =
     (case shape_of b of
        Returns tuple_shape \<Rightarrow>
          if \<not> IsTuple tuple_shape then
            (Returns (Inl (Status InvalidArgument
               ''Attemped to destructure a PyLocalBuffer that did not have a tuple shape; shape: %s'')),
             b)
          else
            (case shaped_buffer b of
               Returns sb \<Rightarrow>
                 (let allocator = memory_allocator sb in
                  case Release b of
                    (Returns tuple_buffer, b') \<Rightarrow>
                      (Returns (Inr (snd (destructure_elements tuple_shape tuple_buffer allocator))),
                       b')
                  | (other, b') \<Rightarrow> (abnormal other, b'))
             | other \<Rightarrow> (abnormal other, b))
      | other \<Rightarrow> (abnormal other, b))"

text \<open>
  The regions a tree holds at the indices of a shape, in pre-order, and the regions a
  buffer owns: those of its tree at the indices of its device shape; a consumed buffer
  owns none. \<open>element_tree\<close> is the part of a tuple's tree under element \<open>i\<close>, re-rooted at
  the empty index, with the null region elsewhere.
\<close>

abbreviation indices :: "shape \<Rightarrow> ShapeIndex list" where
  "indices s \<equiv> map snd (ForEachSubshape s)"

definition regions_of :: "shape \<Rightarrow> buffer_tree \<Rightarrow> DeviceMemoryBase list" where
  "regions_of s tree = map tree (map snd (ForEachSubshape s))"

definition owned_regions :: "PyLocalBuffer \<Rightarrow> DeviceMemoryBase list" where
  "owned_regions b =
     (case shaped_buffer_mem b of
        None \<Rightarrow> []
      | Some sb \<Rightarrow> regions_of (on_device_shape sb) (buffers sb))"

definition element_tree :: "shape list \<Rightarrow> buffer_tree \<Rightarrow> nat \<Rightarrow> buffer_tree" where
  "element_tree ss T i = (\<lambda>x. if x \<in> set (indices (ss ! i)) then T (i # x) else null_memory)"

section \<open>The client and its backend\<close>

text \<open>
  A host value tree as \<open>GetPythonBufferTree\<close> produces it: a shape and the leaf payloads
  in depth-first order. A leaf payload is a byte string. A \<open>Literal\<close> read back from the
  device has the same form.
\<close>

type_synonym host_leaf = "nat list"

record PythonBufferTree =
  shape :: shape
  leaves :: "host_leaf list"

datatype Literal = Literal shape "host_leaf list"

type_synonym se_Stream = nat

record ExecutableRunOptions =
  run_device_ordinal :: int
  run_allocator :: nat
  run_intra_op_thread_pool :: nat
  run_device_assignment :: DeviceAssignment

record LocalExecutable =
  build_options :: ExecutableBuildOptions
  Run :: "ScopedShapedBuffer list \<Rightarrow> ExecutableRunOptions \<Rightarrow> status + ScopedShapedBuffer"

record XlaComputation =
  computation_id :: nat
  GetProgramShape :: "status + shape"

text \<open>
  The collaborators behind \<open>client->client()\<close>, each by the answer it gives to a call:
  the stream pool, the transfer manager, the compiler and the computation placer, and
  the two conversions between Python objects (the type \<open>'py\<close>) and trees or literals.
  None of them is among the sources. An answer is a function of the call's arguments.
\<close>

record 'py PyLocalClient =
  device_count :: nat
  client_platform :: nat
  backend_memory_allocator :: nat
  eigen_intra_op_thread_pool_device :: nat
  BorrowStream :: "int \<Rightarrow> status + se_Stream"
  ChooseCompactLayoutForShape :: "shape \<Rightarrow> status + shape"
  AllocateScopedShapedBuffer :: "shape \<Rightarrow> nat \<Rightarrow> int \<Rightarrow> status + ScopedShapedBuffer"
  WriteTupleIndexTablesAsync :: "se_Stream \<Rightarrow> ScopedShapedBuffer \<Rightarrow> status option"
  TransferLiteralToDeviceAsync :: "se_Stream \<Rightarrow> host_leaf \<Rightarrow> ShapedBuffer \<Rightarrow> status option"
  HostShapeToDeviceShape :: "shape \<Rightarrow> shape"
  ShapedBufferToLiteral :: "ScopedShapedBuffer \<Rightarrow> status + Literal"
  GetPythonBufferTree :: "'py \<Rightarrow> status + PythonBufferTree"
  LiteralToPython :: "Literal \<Rightarrow> status + 'py"
  client_Compile ::
    "XlaComputation \<Rightarrow> shape list \<Rightarrow> ExecutableBuildOptions \<Rightarrow> status + LocalExecutable"
  AssignDevices :: "nat \<Rightarrow> nat \<Rightarrow> status + DeviceAssignment"

text \<open>
  \<open>PyLocalBuffer::ToPython\<close> is a \<open>const\<close> member: it reads the buffer through
  \<open>shaped_buffer()\<close> and leaves it as it is.
\<close>

definition ToPython :: "'py PyLocalClient \<Rightarrow> PyLocalBuffer \<Rightarrow> (status + 'py) outcome" where
  "ToPython client b =
     (case shaped_buffer b of
        Returns sb \<Rightarrow>
          Returns (case ShapedBufferToLiteral client sb of
                     Inl e \<Rightarrow> Inl e
                   | Inr literal \<Rightarrow> LiteralToPython client literal)
      | other \<Rightarrow> abnormal other)"

section \<open>Compilation\<close>

text \<open>
  The lambda \<open>assign_layouts\<close> of \<open>PyLocalExecutable::Compile\<close>, with
  \<open>ShapeUtil::ForEachMutableSubshapeWithStatus\<close> unfolded: the subshapes are visited in
  pre-order and the visit stops at the first error. An array subshape without a layout is
  given the default layout and then replaced by the service's answer; when the service
  fails, the subshape keeps the default layout and the error is the lambda's result. The
  pair is the returned \<open>Status\<close> and the shape as the lambda left it. The service answers
  an array shape for an array shape; the traversal does not descend into its answer.
\<close>

fun assign_layouts :: "(shape \<Rightarrow> status + shape) \<Rightarrow> shape \<Rightarrow> status option \<times> shape"
  and assign_layouts_list ::
    "(shape \<Rightarrow> status + shape) \<Rightarrow> shape list \<Rightarrow> status option \<times> shape list" where
  "assign_layouts choose_layout (Array t ds l) =
     (if IsArray (Array t ds l) \<and> \<not> has_layout (Array t ds l) then
        (let subshape = SetToDefaultLayout (Array t ds l) in
         case choose_layout subshape of
           Inl e \<Rightarrow> (Some e, subshape)
         | Inr chosen \<Rightarrow> (None, chosen))
      else (None, Array t ds l))"
| "assign_layouts choose_layout (Tuple ss) =
     (case assign_layouts_list choose_layout ss of (st, ss') \<Rightarrow> (st, Tuple ss'))"
| "assign_layouts_list choose_layout [] = (None, [])"
| "assign_layouts_list choose_layout (s # ss) =
     (case assign_layouts choose_layout s of
        (Some e, s') \<Rightarrow> (Some e, s' # ss)
      | (None, s') \<Rightarrow>
          (case assign_layouts_list choose_layout ss of (st, ss') \<Rightarrow> (st, s' # ss')))"

text \<open>
  A \<open>PyLocalExecutable\<close>: the compiled program and the device assignment it was
  compiled for.
\<close>

record PyLocalExecutable =
  executable_mem :: LocalExecutable
  device_assignment_mem :: DeviceAssignment

text \<open>
  \<open>PyLocalExecutable::Compile\<close>. Both calls of \<open>assign_layouts\<close> are statements of their
  own in the source: the \<open>Status\<close> they return is dropped (\<open>fst\<close> of the pair is never
  read) and only the mutated shape is kept. \<open>build_options\<close> is \<open>None\<close> for the null
  pointer, in which case a default-constructed \<open>ExecutableBuildOptions\<close> is used.
\<close>

definition default_build_options :: ExecutableBuildOptions where
  "default_build_options = \<lparr>result_layout = None, num_replicas = 1\<rparr>"

definition Compile ::
  "'py PyLocalClient \<Rightarrow> XlaComputation \<Rightarrow> shape list \<Rightarrow> ExecutableBuildOptions option \<Rightarrow>
     status + PyLocalExecutable" where
  "Compile client computation argument_layouts build_options_ptr =
     (let argument_layouts' =
            map (\<lambda>layout. snd (assign_layouts (ChooseCompactLayoutForShape client) layout))
              argument_layouts;
          options =
            (case build_options_ptr of None \<Rightarrow> default_build_options | Some given \<Rightarrow> given);
          result_layout0 =
            (case result_layout options of
               Some given \<Rightarrow> Inr given
             | None \<Rightarrow>
                 (case GetProgramShape computation of
                    Inl e \<Rightarrow> Inl e
                  | Inr program_result \<Rightarrow> Inr (ClearLayout program_result)))
      in case result_layout0 of
           Inl e \<Rightarrow> Inl e
         | Inr r \<Rightarrow>
             (let result_layout' = snd (assign_layouts (ChooseCompactLayoutForShape client) r);
                  options' = options\<lparr>result_layout := Some result_layout'\<rparr>
              in case client_Compile client computation argument_layouts' options' of
                   Inl e \<Rightarrow> Inl e
                 | Inr local_executable \<Rightarrow>
                     (case AssignDevices client (num_replicas options') 1 of
                        Inl e \<Rightarrow> Inl e
                      | Inr device_assignment \<Rightarrow>
                          Inr \<lparr>executable_mem = local_executable,
                               device_assignment_mem = device_assignment\<rparr>)))"

section \<open>Host-to-device transfers\<close>

text \<open>
  The calls a function makes to the backend are recorded in the order it makes them, with
  their arguments, whether they succeed or not. \<open>ChooseCompactLayoutForShape\<close> and the
  conversions of Python objects are queries and are not recorded.
\<close>

datatype backend_call =
    BorrowStream_call int
  | AllocateScopedShapedBuffer_call shape int
  | WriteTupleIndexTablesAsync_call se_Stream
  | TransferLiteralToDeviceAsync_call se_Stream host_leaf DeviceMemoryBase
  | BlockHostUntilDone_call se_Stream
  | Run_call nat int

text \<open>
  The loop of \<open>TransferHostToDeviceAsync\<close> over \<open>ShapeUtil::GetLeafShapes(shape)\<close>, with the
  iterator \<open>it\<close> as the list of leaves not yet consumed. \<open>TF_RET_CHECK\<close> answers an
  \<open>Internal\<close> status when the leaves run out. The \<open>ShapedBuffer leaf\<close> is built for the leaf
  shape and its tree is copied from the buffer's tree at the leaf's index.
\<close>

definition leaf_buffer ::
  "'py PyLocalClient \<Rightarrow> ScopedShapedBuffer \<Rightarrow> int \<Rightarrow> shape \<times> ShapeIndex \<Rightarrow> ShapedBuffer" where
  "leaf_buffer client buffer ordinal indexed_shape =
     \<lparr>on_host_shape = fst indexed_shape,
      on_device_shape = HostShapeToDeviceShape client (fst indexed_shape),
      platform = client_platform client,
      device_ordinal = ordinal,
      buffers = (\<lambda>index. buffers buffer (snd indexed_shape @ index))\<rparr>"

fun transfer_leaves ::
  "'py PyLocalClient \<Rightarrow> se_Stream \<Rightarrow> ScopedShapedBuffer \<Rightarrow> int \<Rightarrow> (shape \<times> ShapeIndex) list \<Rightarrow>
     host_leaf list \<Rightarrow> status option \<times> backend_call list" where
  "transfer_leaves client stream buffer ordinal [] it = (None, [])"
| "transfer_leaves client stream buffer ordinal (indexed_shape # rest) [] =
     (Some (Status Internal ''RET_CHECK failure it != tree.leaves.end()''), [])"
| "transfer_leaves client stream buffer ordinal (indexed_shape # rest) (literal # it) =
     (let leaf = leaf_buffer client buffer ordinal indexed_shape;
          call = TransferLiteralToDeviceAsync_call stream literal (buffers leaf [])
      in case TransferLiteralToDeviceAsync client stream literal leaf of
           Some e \<Rightarrow> (Some e, [call])
         | None \<Rightarrow>
             (case transfer_leaves client stream buffer ordinal rest it of
                (st, calls) \<Rightarrow> (st, call # calls)))"

text \<open>
  \<open>TransferHostToDeviceAsync\<close>: the result and the backend calls made on the way.
\<close>

definition TransferHostToDeviceAsync ::
  "PythonBufferTree \<Rightarrow> int \<Rightarrow> 'py PyLocalClient \<Rightarrow> se_Stream \<Rightarrow>
     (status + PyLocalBuffer) \<times> backend_call list" where
  "TransferHostToDeviceAsync tree ordinal client stream =
     (let allocator = backend_memory_allocator client in
      case ChooseCompactLayoutForShape client (shape tree) of
        Inl e \<Rightarrow> (Inl e, [])
      | Inr compact \<Rightarrow>
          (case AllocateScopedShapedBuffer client compact allocator ordinal of
             Inl e \<Rightarrow> (Inl e, [AllocateScopedShapedBuffer_call compact ordinal])
           | Inr buffer \<Rightarrow>
               (case WriteTupleIndexTablesAsync client stream buffer of
                  Some e \<Rightarrow>
                    (Inl e, [AllocateScopedShapedBuffer_call compact ordinal,
                             WriteTupleIndexTablesAsync_call stream])
                | None \<Rightarrow>
                    (case transfer_leaves client stream buffer ordinal (GetLeafShapes compact)
                            (leaves tree) of
                       (Some e, calls) \<Rightarrow>
                         (Inl e, AllocateScopedShapedBuffer_call compact ordinal #
                                 WriteTupleIndexTablesAsync_call stream # calls)
                     | (None, calls) \<Rightarrow>
                         (Inr (new_PyLocalBuffer buffer),
                          AllocateScopedShapedBuffer_call compact ordinal #
                          WriteTupleIndexTablesAsync_call stream # calls)))))"

text \<open>
  \<open>PyLocalBuffer::FromPython\<close>: the tree is built, a stream is borrowed, the transfer is
  submitted, and \<open>stream->BlockHostUntilDone()\<close> is called before the buffer is returned.
  An error of a \<open>TF_ASSIGN_OR_RETURN\<close> returns at once.
\<close>

definition FromPython ::
  "'py \<Rightarrow> 'py PyLocalClient \<Rightarrow> int \<Rightarrow> (status + PyLocalBuffer) \<times> backend_call list" where
  "FromPython argument client ordinal =
     (case GetPythonBufferTree client argument of
        Inl e \<Rightarrow> (Inl e, [])
      | Inr tree \<Rightarrow>
          (case BorrowStream client ordinal of
             Inl e \<Rightarrow> (Inl e, [BorrowStream_call ordinal])
           | Inr stream \<Rightarrow>
               (case TransferHostToDeviceAsync tree ordinal client stream of
                  (Inl e, calls) \<Rightarrow> (Inl e, BorrowStream_call ordinal # calls)
                | (Inr buffer, calls) \<Rightarrow>
                    (Inr buffer,
                     BorrowStream_call ordinal # calls @ [BlockHostUntilDone_call stream]))))"

text \<open>
  \<open>PyLocalBuffer::FromPythonValues\<close>. The three loops with \<open>TF_ASSIGN_OR_RETURN\<close> stop at
  the first error by index.
\<close>

fun first_error_or_all :: "(status + 'a) list \<Rightarrow> status + 'a list" where
  "first_error_or_all [] = Inr []"
| "first_error_or_all (Inl e # rest) = Inl e"
| "first_error_or_all (Inr x # rest) =
     (case first_error_or_all rest of Inl e \<Rightarrow> Inl e | Inr xs \<Rightarrow> Inr (x # xs))"

fun borrow_streams ::
  "'py PyLocalClient \<Rightarrow> int list \<Rightarrow> (status + se_Stream list) \<times> backend_call list" where
  "borrow_streams client [] = (Inr [], [])"
| "borrow_streams client (ordinal # rest) =
     (case BorrowStream client ordinal of
        Inl e \<Rightarrow> (Inl e, [BorrowStream_call ordinal])
      | Inr stream \<Rightarrow>
          (case borrow_streams client rest of
             (Inl e, calls) \<Rightarrow> (Inl e, BorrowStream_call ordinal # calls)
           | (Inr streams, calls) \<Rightarrow> (Inr (stream # streams), BorrowStream_call ordinal # calls)))"

text \<open>
  The transfers of a batch run concurrently: transfer 0 on the calling thread, the others
  on the transfer pool, each on the stream borrowed for it. The source fixes no order
  between the backend calls of two transfers, so the calls are kept per transfer, in the
  order of the arguments. \<open>borrow_calls\<close> are made before the transfers start and
  \<open>wait_calls\<close> (one \<open>BlockHostUntilDone\<close> per stream) after they have all returned, both
  on the calling thread.
\<close>

record batch_transfer =
  batch_result :: "status + PyLocalBuffer list"
  borrow_calls :: "backend_call list"
  transfer_calls :: "backend_call list list"
  wait_calls :: "backend_call list"

definition transfer_h2d ::
  "'py PyLocalClient \<Rightarrow> (PythonBufferTree \<times> int) \<times> se_Stream \<Rightarrow>
     (status + PyLocalBuffer) \<times> backend_call list" where
  "transfer_h2d client slot =
     TransferHostToDeviceAsync (fst (fst slot)) (snd (fst slot)) client (snd slot)"

definition FromPythonValues :: "('py \<times> int) list \<Rightarrow> 'py PyLocalClient \<Rightarrow> batch_transfer" where
  "FromPythonValues arguments client =
     (let num_arguments = length arguments in
      if num_arguments = 0 then
        \<lparr>batch_result = Inr [], borrow_calls = [], transfer_calls = [], wait_calls = []\<rparr>
      else
        (case first_error_or_all (map (\<lambda>a. GetPythonBufferTree client (fst a)) arguments) of
           Inl e \<Rightarrow>
             \<lparr>batch_result = Inl e, borrow_calls = [], transfer_calls = [], wait_calls = []\<rparr>
         | Inr trees \<Rightarrow>
             (case borrow_streams client (map snd arguments) of
                (Inl e, borrows) \<Rightarrow>
                  \<lparr>batch_result = Inl e, borrow_calls = borrows, transfer_calls = [],
                   wait_calls = []\<rparr>
              | (Inr streams, borrows) \<Rightarrow>
                  (let transfers =
                         map (transfer_h2d client) (zip (zip trees (map snd arguments)) streams)
                   in \<lparr>batch_result = first_error_or_all (map fst transfers),
                       borrow_calls = borrows,
                       transfer_calls = map snd transfers,
                       wait_calls = map BlockHostUntilDone_call streams\<rparr>))))"

section \<open>Device memory\<close>

text \<open>
  Modelled from the spec: the transfer manager's \<open>TransferLiteralToDeviceAsync\<close> and the
  client's \<open>ShapedBufferToLiteral\<close> (transfer_manager.cc and local_client.cc of the
  service are not among the sources). The spec says that a transfer is a copy of the leaf
  host value into the matching device memory region, and that converting a buffer back
  copies the buffer's content into a host value tree. So device memory maps a region to
  the leaf value it holds, if any; a \<open>TransferLiteralToDeviceAsync\<close> call stores its
  literal in its region and no other backend call changes what a region holds; and
  reading a buffer back collects the values of its leaf regions, in depth-first order,
  under the buffer's host shape.
\<close>

type_synonym device_memory = "DeviceMemoryBase \<Rightarrow> host_leaf option"

fun perform :: "device_memory \<Rightarrow> backend_call \<Rightarrow> device_memory" where
  "perform memory (TransferLiteralToDeviceAsync_call stream literal region) =
     memory(region \<mapsto> literal)"
| "perform memory other = memory"

definition device_after :: "backend_call list \<Rightarrow> device_memory \<Rightarrow> device_memory" where
  "device_after calls memory = foldl perform memory calls"

definition read_back :: "device_memory \<Rightarrow> ScopedShapedBuffer \<Rightarrow> status + Literal" where
  "read_back memory sb =
     (case those (map (\<lambda>indexed_shape. memory (buffers sb (snd indexed_shape)))
                   (GetLeafShapes (on_host_shape sb))) of
        None \<Rightarrow> Inl (Status Internal ''a leaf region holds no value'')
      | Some contents \<Rightarrow> Inr (Literal (on_host_shape sb) contents))"

section \<open>Execution\<close>

text \<open>
  Modelled from the spec: \<open>PyLocalExecutable::num_replicas()\<close>, declared in local_client.h
  (not among the sources): the replica count the executable was built with.
\<close>

definition exe_num_replicas :: "PyLocalExecutable \<Rightarrow> nat" where
  "exe_num_replicas e = num_replicas (build_options (executable_mem e))"

text \<open>
  Modelled from the spec: \<open>AppendStatus\<close> of util.cc (not among the sources), which
  annotates a failure: the status keeps its code and its message is extended by the
  context. \<open>string_of_nat\<close> prints a number as \<open>%d\<close> does.
\<close>

fun string_of_nat :: "nat \<Rightarrow> string" where
  "string_of_nat n =
     (if n < 10 then [char_of (48 + n)]
      else string_of_nat (n div 10) @ [char_of (48 + n mod 10)])"

declare string_of_nat.simps [simp del]

definition AppendStatus :: "status \<Rightarrow> string \<Rightarrow> status" where
  "AppendStatus prior context_text =
     Status (status_code prior) (status_message prior @ '': '' @ context_text)"

text \<open>
  The argument buffers of one replica: \<open>handle->shaped_buffer()\<close> for every handle, in
  order. A consumed handle raises.
\<close>

fun argument_buffers_of :: "PyLocalBuffer list \<Rightarrow> ScopedShapedBuffer list outcome" where
  "argument_buffers_of [] = Returns []"
| "argument_buffers_of (handle # rest) =
     (case shaped_buffer handle of
        Returns sb \<Rightarrow>
          (case argument_buffers_of rest of
             Returns sbs \<Rightarrow> Returns (sb # sbs)
           | other \<Rightarrow> abnormal other)
      | other \<Rightarrow> abnormal other)"

definition run_options :: "'py PyLocalClient \<Rightarrow> PyLocalExecutable \<Rightarrow> int \<Rightarrow> ExecutableRunOptions" where
  "run_options client e ordinal =
     \<lparr>run_device_ordinal = ordinal,
      run_allocator = backend_memory_allocator client,
      run_intra_op_thread_pool = eigen_intra_op_thread_pool_device client,
      run_device_assignment = device_assignment_mem e\<rparr>"


text \<open>
  The lambda \<open>execute\<close> of \<open>ExecutePerReplica\<close>, for one replica.
\<close>

definition execute ::
  "'py PyLocalClient \<Rightarrow> PyLocalExecutable \<Rightarrow> PyLocalBuffer list list \<Rightarrow> nat \<Rightarrow>
     (status + ScopedShapedBuffer) outcome \<times> backend_call list" where
  "execute client e argument_handles replica =
     (let ordinal = device_at (device_assignment_mem e) replica 0 in
      case argument_buffers_of (argument_handles ! replica) of
        Returns argument_buffers \<Rightarrow>
          (Returns (Run (executable_mem e) argument_buffers (run_options client e ordinal)),
           [Run_call replica ordinal])
      | other \<Rightarrow> (abnormal other, []))"

text \<open>
  The last loop of \<open>ExecutePerReplica\<close>: the results are wrapped by replica index, and
  the first failure by index is returned with its annotation.
\<close>

definition replica_context :: "nat \<Rightarrow> string" where
  "replica_context replica =
     ''while running replica '' @ string_of_nat replica @
     '' of a replicated computation (other replicas may have failed as well).''"

fun wrap_results :: "nat \<Rightarrow> (status + ScopedShapedBuffer) list \<Rightarrow> status + PyLocalBuffer list" where
  "wrap_results replica [] = Inr []"
| "wrap_results replica (Inl st # rest) = Inl (AppendStatus st (replica_context replica))"
| "wrap_results replica (Inr sb # rest) =
     (case wrap_results (Suc replica) rest of
        Inl e \<Rightarrow> Inl e
      | Inr wrapped \<Rightarrow> Inr (new_PyLocalBuffer sb # wrapped))"

text \<open>
  The results of the replicas that returned, or how the first one that did not return
  ended.
\<close>

fun returned_results :: "'a outcome list \<Rightarrow> 'a list outcome" where
  "returned_results [] = Returns []"
| "returned_results (Returns x # rest) =
     (case returned_results rest of Returns xs \<Rightarrow> Returns (x # xs) | other \<Rightarrow> abnormal other)"
| "returned_results (other # rest) = abnormal other"

fun is_failure :: "status + 'a \<Rightarrow> bool" where
  "is_failure (Inl e) = True"
| "is_failure (Inr x) = False"

text \<open>
  \<open>PyLocalExecutable::ExecutePerReplica\<close>. With one replica \<open>execute(0)\<close> runs on the
  calling thread, and what it raises reaches the caller. Otherwise every replica is
  scheduled on its own worker thread, where nothing catches what \<open>execute\<close> raises: a
  consumed argument handle ends the process. The caller waits; \<open>all_done_in_time\<close> is
  the answer of \<open>mu.AwaitWithTimeout(done_running, 10 s)\<close>, consulted only after a failure
  was seen, and \<open>LOG(FATAL)\<close> ends the process when it is false. The backend calls are
  listed by replica index; between replicas on different threads the source fixes no
  order. The first message prints the device count where the replica count is meant, as
  the source does.
\<close>

definition ExecutePerReplica ::
  "'py PyLocalClient \<Rightarrow> PyLocalExecutable \<Rightarrow> bool \<Rightarrow> PyLocalBuffer list list \<Rightarrow>
     (status + PyLocalBuffer list) outcome \<times> backend_call list" where
  "ExecutePerReplica client e all_done_in_time argument_handles =
     (let num_devices = device_count client in
      if length argument_handles \<noteq> exe_num_replicas e then
        (Returns (Inl (Status InvalidArgument
           (''Attempted to execute with '' @ string_of_nat (length argument_handles) @
            '' replicas when replica count is '' @ string_of_nat num_devices))), [])
      else if length argument_handles > num_devices then
        (Returns (Inl (Status InvalidArgument
           (''Attempted to execute with '' @ string_of_nat (length argument_handles) @
            '' replicas when device count is '' @ string_of_nat num_devices))), [])
      else
        (let runs = map (execute client e argument_handles) [0..<exe_num_replicas e];
             calls = concat (map snd runs)
         in case returned_results (map fst runs) of
              Returns results \<Rightarrow>
                if exe_num_replicas e \<noteq> 1 \<and> list_ex is_failure results \<and>
                   \<not> all_done_in_time
                then (Fatal, calls)
                else (Returns (wrap_results 0 results), calls)
            | other \<Rightarrow>
                if exe_num_replicas e = 1 then (abnormal other, calls)
                else (Terminated, calls)))"

section \<open>A concrete client\<close>

text \<open>
  A small backend on which the functions above can be run: three devices, a layout service
  that has no compact layout for \<open>F64\<close> arrays, an allocator that numbers the regions of
  a buffer in pre-order, and a compiler whose programs fail on device 1. Its Python
  objects are the host value trees themselves.
\<close>

fun demo_choose_layout :: "shape \<Rightarrow> status + shape" where
  "demo_choose_layout (Array t ds l) =
     (if t = F64 then Inl (Status Unknown ''no compact layout for F64'')
      else Inr (Array t ds (Some (rev [0..<length ds]))))"
| "demo_choose_layout (Tuple ss) =
     (case first_error_or_all (map demo_choose_layout ss) of
        Inl e \<Rightarrow> Inl e
      | Inr ss' \<Rightarrow> Inr (Tuple ss'))"

fun position_of :: "'a \<Rightarrow> 'a list \<Rightarrow> nat option" where
  "position_of x [] = None"
| "position_of x (y # ys) =
     (if x = y then Some 0 else map_option Suc (position_of x ys))"

definition demo_regions :: "shape \<Rightarrow> buffer_tree" where
  "demo_regions s index =
     (case position_of index (map snd (ForEachSubshape s)) of
        None \<Rightarrow> null_memory
      | Some k \<Rightarrow> DeviceMemoryBase (Suc k) 8)"

definition demo_allocate :: "shape \<Rightarrow> nat \<Rightarrow> int \<Rightarrow> status + ScopedShapedBuffer" where
  "demo_allocate s allocator ordinal =
     Inr \<lparr>on_host_shape = s, on_device_shape = s, platform = 0, device_ordinal = ordinal,
          buffers = demo_regions s, memory_allocator = allocator\<rparr>"

definition demo_result :: ScopedShapedBuffer where
  "demo_result =
     \<lparr>on_host_shape = Array F32 [] (Some []), on_device_shape = Array F32 [] (Some []),
      platform = 0, device_ordinal = 0, buffers = demo_regions (Array F32 [] (Some [])),
      memory_allocator = 0\<rparr>"

definition demo_Run ::
  "ScopedShapedBuffer list \<Rightarrow> ExecutableRunOptions \<Rightarrow> status + ScopedShapedBuffer" where
  "demo_Run arguments options =
     (if run_device_ordinal options = 1 then Inl (Status Internal ''device 1 failed'')
      else Inr (demo_result\<lparr>device_ordinal := run_device_ordinal options\<rparr>))"

definition demo_assignment :: "int \<Rightarrow> nat \<Rightarrow> nat \<Rightarrow> DeviceAssignment" where
  "demo_assignment first_device replicas computations =
     \<lparr>replica_count = replicas, computation_count = computations,
      device_at = (\<lambda>replica computation. first_device + int replica)\<rparr>"

definition demo_client :: "PythonBufferTree PyLocalClient" where
  "demo_client =
     \<lparr>device_count = 3,
      client_platform = 0,
      backend_memory_allocator = 0,
      eigen_intra_op_thread_pool_device = 0,
      BorrowStream = (\<lambda>ordinal. if 0 \<le> ordinal \<and> ordinal < 3 then Inr (nat ordinal)
                                else Inl (Status InvalidArgument ''no such device'')),
      ChooseCompactLayoutForShape = demo_choose_layout,
      AllocateScopedShapedBuffer = demo_allocate,
      WriteTupleIndexTablesAsync = (\<lambda>stream buffer. None),
      TransferLiteralToDeviceAsync = (\<lambda>stream literal leaf. None),
      HostShapeToDeviceShape = (\<lambda>s. s),
      ShapedBufferToLiteral = (\<lambda>sb. Inl (Status Unknown ''nothing transferred'')),
      GetPythonBufferTree = Inr,
      LiteralToPython = (\<lambda>literal. case literal of Literal s ls \<Rightarrow> Inr \<lparr>shape = s, leaves = ls\<rparr>),
      client_Compile = (\<lambda>computation layouts options.
                          Inr \<lparr>build_options = options, Run = demo_Run\<rparr>),
      AssignDevices = (\<lambda>replicas computations. Inr (demo_assignment 0 replicas computations))\<rparr>"

text \<open>An executable of the given replica count, replica \<open>r\<close> on device \<open>first_device + r\<close>.\<close>

definition demo_executable :: "int \<Rightarrow> nat \<Rightarrow> PyLocalExecutable" where
  "demo_executable first_device replicas =
     \<lparr>executable_mem =
        \<lparr>build_options = \<lparr>result_layout = None, num_replicas = replicas\<rparr>, Run = demo_Run\<rparr>,
      device_assignment_mem = demo_assignment first_device replicas 1\<rparr>"

definition demo_computation :: XlaComputation where
  "demo_computation = \<lparr>computation_id = 0, GetProgramShape = Inr (Array F32 [] None)\<rparr>"

text \<open>A tuple of two arrays with its two leaves, and a tree the layout service refuses.\<close>

definition demo_tree :: PythonBufferTree where
  "demo_tree =
     \<lparr>shape = Tuple [Array F32 [2] None, Array S32 [] None], leaves = [[1, 2], [3]]\<rparr>"

definition demo_bad_tree :: PythonBufferTree where
  "demo_bad_tree = \<lparr>shape = Array F64 [] None, leaves = [[9]]\<rparr>"

text \<open>A buffer of tuple shape, its three regions numbered by the allocator.\<close>

definition demo_tuple_buffer :: PyLocalBuffer where
  "demo_tuple_buffer =
     new_PyLocalBuffer
       \<lparr>on_host_shape = Tuple [Array F32 [] (Some []), Array S32 [] (Some [])],
        on_device_shape = Tuple [Array F32 [] (Some []), Array S32 [] (Some [])],
        platform = 0, device_ordinal = 0,
        buffers = demo_regions (Tuple [Array F32 [] (Some []), Array S32 [] (Some [])]),
        memory_allocator = 0\<rparr>"

text \<open>A buffer of tuple shape whose two elements share one region.\<close>

definition demo_aliased_buffer :: PyLocalBuffer where
  "demo_aliased_buffer =
     new_PyLocalBuffer
       \<lparr>on_host_shape = Tuple [Array F32 [] (Some []), Array F32 [] (Some [])],
        on_device_shape = Tuple [Array F32 [] (Some []), Array F32 [] (Some [])],
        platform = 0, device_ordinal = 0,
        buffers = (\<lambda>index. if index = [] then DeviceMemoryBase 1 8 else DeviceMemoryBase 2 8),
        memory_allocator = 0\<rparr>"

text \<open>
  The concrete client reading buffers back from the device memory that its transfer of
  the given tree, to device 0 of an empty memory, leaves behind.
\<close>

definition demo_reading_client :: "PythonBufferTree \<Rightarrow> PythonBufferTree PyLocalClient" where
  "demo_reading_client tree =
     demo_client\<lparr>ShapedBufferToLiteral :=
       read_back (device_after (snd (FromPython tree demo_client 0)) (\<lambda>region. None))\<rparr>"

section \<open>Lists of results\<close>

lemma first_error_or_all_Inr:
  "first_error_or_all xs = Inr ys \<Longrightarrow> length ys = length xs \<and> (\<forall>i<length xs. xs ! i = Inr (ys ! i))"
proof (induction xs arbitrary: ys)
  case Nil
  then show ?case by simp
next
  case (Cons x xs)
  show ?case
  proof (cases x)
    case (Inl e)
    with Cons.prems show ?thesis by simp
  next
    case (Inr v)
    with Cons.prems obtain zs where zs: "first_error_or_all xs = Inr zs" "ys = v # zs"
      by (auto split: sum.splits)
    from Cons.IH [OF zs(1)] zs(2) Inr show ?thesis
      by (auto simp: nth_Cons split: nat.splits)
  qed
qed

lemma first_error_or_all_Inl:
  "k < length xs \<Longrightarrow> xs ! k = Inl e \<Longrightarrow> (\<forall>j<k. \<not> isl (xs ! j)) \<Longrightarrow> first_error_or_all xs = Inl e"
proof (induction xs arbitrary: k)
  case Nil
  then show ?case by simp
next
  case (Cons x xs)
  show ?case
  proof (cases k)
    case 0
    with Cons.prems show ?thesis by simp
  next
    case (Suc k')
    with Cons.prems have "\<not> isl x" by auto
    then obtain v where v: "x = Inr v" by (cases x) auto
    from Cons.prems Suc have "k' < length xs" "xs ! k' = Inl e" "\<forall>j<k'. \<not> isl (xs ! j)"
      by auto
    from Cons.IH [OF this] v show ?thesis by simp
  qed
qed

lemma first_error_or_all_isl:
  "k < length xs \<Longrightarrow> isl (xs ! k) \<Longrightarrow> isl (first_error_or_all xs)"
proof (induction xs arbitrary: k)
  case Nil
  then show ?case by simp
next
  case (Cons x xs)
  show ?case
  proof (cases x)
    case (Inl e)
    then show ?thesis by simp
  next
    case (Inr v)
    with Cons.prems obtain k' where "k = Suc k'" by (cases k) auto
    with Cons.prems have "k' < length xs" "isl (xs ! k')" by auto
    from Cons.IH [OF this] Inr show ?thesis by (auto split: sum.splits)
  qed
qed

lemma first_error_or_all_least:
  "k < length xs \<Longrightarrow> isl (xs ! k) \<Longrightarrow>
   \<exists>m e'. m \<le> k \<and> xs ! m = Inl e' \<and> (\<forall>j<m. \<not> isl (xs ! j)) \<and> first_error_or_all xs = Inl e'"
proof (induction xs arbitrary: k)
  case Nil
  then show ?case by simp
next
  case (Cons x xs)
  show ?case
  proof (cases x)
    case (Inl e)
    then have "0 \<le> k \<and> (x # xs) ! 0 = Inl e \<and> (\<forall>j<0. \<not> isl ((x # xs) ! j))
               \<and> first_error_or_all (x # xs) = Inl e"
      by simp
    then show ?thesis by blast
  next
    case (Inr v)
    with Cons.prems obtain k' where k': "k = Suc k'" by (cases k) auto
    with Cons.prems have "k' < length xs" "isl (xs ! k')" by auto
    from Cons.IH [OF this] obtain m e' where m: "m \<le> k'" "xs ! m = Inl e'"
      "\<forall>j<m. \<not> isl (xs ! j)" "first_error_or_all xs = Inl e'" by blast
    have "Suc m \<le> k" using m(1) k' by simp
    moreover have "(x # xs) ! Suc m = Inl e'" using m(2) by simp
    moreover have "\<forall>j<Suc m. \<not> isl ((x # xs) ! j)"
      using m(3) Inr by (auto simp add: nth_Cons split: nat.splits)
    moreover have "first_error_or_all (x # xs) = Inl e'" using m(4) Inr by simp
    ultimately show ?thesis by blast
  qed
qed

lemma borrow_streams_length:
  "fst (borrow_streams client ordinals) = Inr streams \<Longrightarrow> length streams = length ordinals"
proof (induction ordinals arbitrary: streams)
  case Nil
  then show ?case by simp
next
  case (Cons d ds)
  then show ?case by (auto split: sum.splits prod.splits)
qed

section \<open>Batch transfer of nothing\<close>

text \<open>
  C10. \<open>FromPythonValues\<close> on an empty list of arguments succeeds with an empty vector of
  buffers; it borrows no stream, starts no transfer and waits for none.
\<close>

theorem FromPythonValues_empty:
  "FromPythonValues [] client =
     \<lparr>batch_result = Inr [], borrow_calls = [], transfer_calls = [], wait_calls = []\<rparr>"
  by (simp add: FromPythonValues_def)

section \<open>Replica count enforcement\<close>

text \<open>
  C7. When the outer length of the argument list differs from the executable's replica
  count, or exceeds the client's device count, \<open>ExecutePerReplica\<close> returns an
  \<open>InvalidArgument\<close> status and has made no backend call.
\<close>

theorem ExecutePerReplica_count_mismatch:
  assumes "length argument_handles \<noteq> exe_num_replicas e
             \<or> length argument_handles > device_count client"
  shows "\<exists>msg. ExecutePerReplica client e all_done_in_time argument_handles =
           (Returns (Inl (Status InvalidArgument msg)), [])"
  using assms by (auto simp add: ExecutePerReplica_def Let_def)

theorem ExecutePerReplica_count_mismatch_witness:
  "length [[], [], [], [] :: PyLocalBuffer list] > device_count demo_client
   \<and> (\<exists>msg. ExecutePerReplica demo_client (demo_executable 0 4) True [[], [], [], []] =
          (Returns (Inl (Status InvalidArgument msg)), []))"
proof -
  have h: "length [[], [], [], [] :: PyLocalBuffer list] > device_count demo_client"
    by (simp add: demo_client_def)
  then have "length [[], [], [], [] :: PyLocalBuffer list] \<noteq> exe_num_replicas (demo_executable 0 4)
             \<or> length [[], [], [], [] :: PyLocalBuffer list] > device_count demo_client"
    by simp
  from ExecutePerReplica_count_mismatch [OF this] h show ?thesis by blast
qed

section \<open>Layout errors in compilation\<close>

text \<open>
  C2. On an argument layout for which the layout service fails, \<open>assign_layouts\<close> answers
  the service's error, and \<open>Compile\<close> succeeds all the same: the status is dropped.
\<close>

theorem Compile_drops_layout_error:
  "fst (assign_layouts (ChooseCompactLayoutForShape demo_client) (Array F64 [2] None)) =
     Some (Status Unknown ''no compact layout for F64'')
   \<and> \<not> isl (Compile demo_client demo_computation [Array F64 [2] None] None)"
  by (simp add: demo_client_def demo_computation_def Compile_def default_build_options_def)

section \<open>The single transfer waits for its stream\<close>

text \<open>
  C4, as the claim states it: \<open>FromPython\<close> would return the buffer without waiting for the
  stream. It does wait. On the concrete client the transfer of a tuple of two arrays
  succeeds, and the last backend call before the return is \<open>BlockHostUntilDone\<close> on the
  borrowed stream, after both leaf copies have been submitted.
\<close>

theorem FromPython_blocks_before_return:
  "\<not> isl (fst (FromPython demo_tree demo_client 0)) \<and>
   snd (FromPython demo_tree demo_client 0) =
     [BorrowStream_call 0,
      AllocateScopedShapedBuffer_call (Tuple [Array F32 [2] (Some [0]), Array S32 [] (Some [])]) 0,
      WriteTupleIndexTablesAsync_call 0,
      TransferLiteralToDeviceAsync_call 0 [1, 2] (DeviceMemoryBase 2 8),
      TransferLiteralToDeviceAsync_call 0 [3] (DeviceMemoryBase 3 8),
      BlockHostUntilDone_call 0]"
  by (simp add: FromPython_def demo_client_def demo_tree_def TransferHostToDeviceAsync_def
      demo_allocate_def GetLeafShapes_def leaf_buffer_def demo_regions_def)

text \<open>
  C4, amended: whenever \<open>FromPython\<close> returns a buffer, it has built the tree, borrowed a
  stream, submitted the transfer (\<open>TransferHostToDeviceAsync\<close> returned that buffer) and
  then called \<open>BlockHostUntilDone\<close> on the stream as its last backend call: it returns
  only after waiting for the pending device work.
\<close>

theorem FromPython_waits:
  assumes "FromPython argument client ordinal = (Inr buffer, calls)"
  shows "\<exists>tree stream submitted.
           GetPythonBufferTree client argument = Inr tree
         \<and> BorrowStream client ordinal = Inr stream
         \<and> TransferHostToDeviceAsync tree ordinal client stream = (Inr buffer, submitted)
         \<and> calls = BorrowStream_call ordinal # submitted @ [BlockHostUntilDone_call stream]"
  using assms
  by (auto simp add: FromPython_def split: sum.splits prod.splits)


theorem FromPython_waits_witness:
  "\<exists>buffer tree stream submitted.
      FromPython demo_tree demo_client 0 =
        (Inr buffer, BorrowStream_call 0 # submitted @ [BlockHostUntilDone_call stream])
    \<and> TransferHostToDeviceAsync tree 0 demo_client stream = (Inr buffer, submitted)"
proof -
  have "\<not> isl (fst (FromPython demo_tree demo_client 0))"
    by (simp add: FromPython_def demo_client_def demo_tree_def TransferHostToDeviceAsync_def
        demo_allocate_def GetLeafShapes_def leaf_buffer_def demo_regions_def)
  then obtain buffer calls where h: "FromPython demo_tree demo_client 0 = (Inr buffer, calls)"
    by (cases "FromPython demo_tree demo_client 0"; cases "fst (FromPython demo_tree demo_client 0)")
      auto
  from FromPython_waits [OF h] h show ?thesis by auto
qed

section \<open>Layout failures in a batch transfer\<close>

lemma TransferHostToDeviceAsync_layout_failure:
  "ChooseCompactLayoutForShape client (shape tree) = Inl e \<Longrightarrow>
   TransferHostToDeviceAsync tree ordinal client stream = (Inl e, [])"
  by (simp add: TransferHostToDeviceAsync_def)

text \<open>
  C1, as the claim states it: a layout failure of any tree would fail the batch before
  any allocation or transfer. On the concrete client, in a batch of a good tree and a
  tree the layout service refuses, the call fails with the layout error, but the
  transfer of the good tree has allocated its buffer and submitted both leaf copies.
\<close>

theorem FromPythonValues_not_fail_fast:
  "ChooseCompactLayoutForShape demo_client (shape demo_bad_tree) =
     Inl (Status Unknown ''no compact layout for F64'')
   \<and> batch_result (FromPythonValues [(demo_tree, 0), (demo_bad_tree, 1)] demo_client) =
     Inl (Status Unknown ''no compact layout for F64'')
   \<and> transfer_calls (FromPythonValues [(demo_tree, 0), (demo_bad_tree, 1)] demo_client) =
     [[AllocateScopedShapedBuffer_call (Tuple [Array F32 [2] (Some [0]), Array S32 [] (Some [])]) 0,
       WriteTupleIndexTablesAsync_call 0,
       TransferLiteralToDeviceAsync_call 0 [1, 2] (DeviceMemoryBase 2 8),
       TransferLiteralToDeviceAsync_call 0 [3] (DeviceMemoryBase 3 8)],
      []]"
  by (simp add: FromPythonValues_def demo_client_def demo_tree_def demo_bad_tree_def
      TransferHostToDeviceAsync_def transfer_h2d_def
      demo_allocate_def GetLeafShapes_def leaf_buffer_def demo_regions_def)

text \<open>
  C1, amended: layout resolution is a step of each transfer. When every tree is built and
  every stream is borrowed, and layout resolution fails for tree \<open>i\<close>, the batch fails;
  transfer \<open>i\<close> makes no backend call (no allocation, no copy); every other transfer
  makes the calls it would make on its own; all streams are waited for before the error
  is returned; and the error is the layout error of tree \<open>i\<close> when no transfer of a lower
  index fails.
\<close>

theorem FromPythonValues_layout_failure:
  assumes trees: "first_error_or_all (map (\<lambda>a. GetPythonBufferTree client (fst a)) arguments) = Inr trees"
      and streams: "fst (borrow_streams client (map snd arguments)) = Inr streams"
      and i: "i < length arguments"
      and fail: "ChooseCompactLayoutForShape client (shape (trees ! i)) = Inl e"
  shows "isl (batch_result (FromPythonValues arguments client))
       \<and> (\<exists>m e'. m \<le> i
             \<and> fst (TransferHostToDeviceAsync (trees ! m) (snd (arguments ! m)) client
                      (streams ! m)) = Inl e'
             \<and> (\<forall>j<m. \<not> isl (fst (TransferHostToDeviceAsync (trees ! j) (snd (arguments ! j))
                                       client (streams ! j))))
             \<and> batch_result (FromPythonValues arguments client) = Inl e')
       \<and> length (transfer_calls (FromPythonValues arguments client)) = length arguments
       \<and> transfer_calls (FromPythonValues arguments client) ! i = []
       \<and> (\<forall>j<length arguments.
             transfer_calls (FromPythonValues arguments client) ! j =
               snd (TransferHostToDeviceAsync (trees ! j) (snd (arguments ! j)) client (streams ! j)))
       \<and> wait_calls (FromPythonValues arguments client) = map BlockHostUntilDone_call streams
       \<and> ((\<forall>j<i. \<not> isl (fst (TransferHostToDeviceAsync (trees ! j) (snd (arguments ! j)) client
                                  (streams ! j))))
            \<longrightarrow> batch_result (FromPythonValues arguments client) = Inl e)"
proof -
  let ?n = "length arguments"
  let ?slots = "zip (zip trees (map snd arguments)) streams"
  let ?transfers = "map (transfer_h2d client) ?slots"
  have lt: "length trees = ?n"
    using first_error_or_all_Inr [OF trees] by simp
  have ls: "length streams = ?n"
    using borrow_streams_length [OF streams] by simp
  obtain borrows where b: "borrow_streams client (map snd arguments) = (Inr streams, borrows)"
    using streams by (cases "borrow_streams client (map snd arguments)") auto
  have n0: "?n \<noteq> 0" using i by auto
  have r: "FromPythonValues arguments client =
             \<lparr>batch_result = first_error_or_all (map fst ?transfers),
              borrow_calls = borrows,
              transfer_calls = map snd ?transfers,
              wait_calls = map BlockHostUntilDone_call streams\<rparr>"
    using n0 trees b by (simp add: FromPythonValues_def Let_def)
  have len: "length ?transfers = ?n" using lt ls by simp
  have slot: "?transfers ! j =
                TransferHostToDeviceAsync (trees ! j) (snd (arguments ! j)) client (streams ! j)"
    if "j < ?n" for j
    using that lt ls by (simp add: transfer_h2d_def)
  have ti: "?transfers ! i = (Inl e, [])"
    using slot [OF i] TransferHostToDeviceAsync_layout_failure [OF fail] by simp
  have c1: "isl (batch_result (FromPythonValues arguments client))"
  proof -
    have "isl (map fst ?transfers ! i)" using ti i len by simp
    moreover have "i < length (map fst ?transfers)" using i len by simp
    ultimately have "isl (first_error_or_all (map fst ?transfers))"
      by (rule first_error_or_all_isl [rotated])
    then show ?thesis by (simp add: r)
  qed
  have c2: "length (transfer_calls (FromPythonValues arguments client)) = ?n"
    using len by (simp add: r)
  have c3: "transfer_calls (FromPythonValues arguments client) ! i = []"
    using ti i len by (simp add: r)
  have c4: "\<forall>j<?n. transfer_calls (FromPythonValues arguments client) ! j =
               snd (TransferHostToDeviceAsync (trees ! j) (snd (arguments ! j)) client (streams ! j))"
    using slot len by (simp add: r)
  have c5: "wait_calls (FromPythonValues arguments client) = map BlockHostUntilDone_call streams"
    by (simp add: r)
  have c6: "batch_result (FromPythonValues arguments client) = Inl e"
    if first: "\<forall>j<i. \<not> isl (fst (TransferHostToDeviceAsync (trees ! j) (snd (arguments ! j)) client
                                  (streams ! j)))"
  proof -
    have a: "i < length (map fst ?transfers)" using i len by simp
    have b': "map fst ?transfers ! i = Inl e" using ti i len by simp
    have c: "\<forall>j<i. \<not> isl (map fst ?transfers ! j)"
    proof (intro allI impI)
      fix j assume "j < i"
      then have "j < ?n" using i by simp
      with first \<open>j < i\<close> slot [OF this] len show "\<not> isl (map fst ?transfers ! j)" by simp
    qed
    from first_error_or_all_Inl [OF a b' c] show ?thesis by (simp add: r)
  qed
  have c7: "\<exists>m e'. m \<le> i
             \<and> fst (TransferHostToDeviceAsync (trees ! m) (snd (arguments ! m)) client
                      (streams ! m)) = Inl e'
             \<and> (\<forall>j<m. \<not> isl (fst (TransferHostToDeviceAsync (trees ! j) (snd (arguments ! j))
                                       client (streams ! j))))
             \<and> batch_result (FromPythonValues arguments client) = Inl e'"
  proof -
    have a: "i < length (map fst ?transfers)" using i len by simp
    have b': "isl (map fst ?transfers ! i)" using ti i len by simp
    from first_error_or_all_least [OF a b'] obtain m e' where
      m: "m \<le> i" "map fst ?transfers ! m = Inl e'"
         "\<forall>j<m. \<not> isl (map fst ?transfers ! j)"
         "first_error_or_all (map fst ?transfers) = Inl e'"
      by blast
    have mn: "m < ?n" using m(1) i by simp
    have p1: "fst (TransferHostToDeviceAsync (trees ! m) (snd (arguments ! m)) client
                 (streams ! m)) = Inl e'"
      using m(2) mn slot [OF mn] len by simp
    have p2: "\<forall>j<m. \<not> isl (fst (TransferHostToDeviceAsync (trees ! j) (snd (arguments ! j))
                                  client (streams ! j)))"
    proof (intro allI impI)
      fix j assume jm: "j < m"
      then have jn: "j < ?n" using mn by simp
      from m(3) jm have "\<not> isl (map fst ?transfers ! j)" by simp
      then show "\<not> isl (fst (TransferHostToDeviceAsync (trees ! j) (snd (arguments ! j))
                               client (streams ! j)))"
        using jn slot [OF jn] len by simp
    qed
    have p3: "batch_result (FromPythonValues arguments client) = Inl e'"
      using m(4) by (simp add: r)
    from m(1) p1 p2 p3 show ?thesis by blast
  qed
  from c1 c7 c2 c3 c4 c5 c6 show ?thesis by blast
qed

theorem FromPythonValues_layout_failure_witness:
  "first_error_or_all (map (\<lambda>a. GetPythonBufferTree demo_client (fst a))
      [(demo_tree, 0), (demo_bad_tree, 1)]) = Inr [demo_tree, demo_bad_tree]
   \<and> fst (borrow_streams demo_client (map snd [(demo_tree, 0::int), (demo_bad_tree, 1)])) = Inr [0, 1]
   \<and> ChooseCompactLayoutForShape demo_client (shape ([demo_tree, demo_bad_tree] ! 1)) =
       Inl (Status Unknown ''no compact layout for F64'')
   \<and> isl (batch_result (FromPythonValues [(demo_tree, 0), (demo_bad_tree, 1)] demo_client))
   \<and> transfer_calls (FromPythonValues [(demo_tree, 0), (demo_bad_tree, 1)] demo_client) ! 1 = []
   \<and> wait_calls (FromPythonValues [(demo_tree, 0), (demo_bad_tree, 1)] demo_client) =
       [BlockHostUntilDone_call 0, BlockHostUntilDone_call 1]"
proof -
  have h1: "first_error_or_all (map (\<lambda>a. GetPythonBufferTree demo_client (fst a))
      [(demo_tree, 0), (demo_bad_tree, 1)]) = Inr [demo_tree, demo_bad_tree]"
    by (simp add: demo_client_def)
  have h2: "fst (borrow_streams demo_client (map snd [(demo_tree, 0::int), (demo_bad_tree, 1)])) = Inr [0, 1]"
    by (simp add: demo_client_def)
  have h3: "(1::nat) < length [(demo_tree, 0::int), (demo_bad_tree, 1)]" by simp
  have h4: "ChooseCompactLayoutForShape demo_client (shape ([demo_tree, demo_bad_tree] ! 1)) =
       Inl (Status Unknown ''no compact layout for F64'')"
    by (simp add: demo_client_def demo_bad_tree_def)
  from FromPythonValues_layout_failure [OF h1 h2 h3 h4] h1 h2 h4 show ?thesis by simp
qed


section \<open>Consumed buffers\<close>

lemma shaped_buffer_consumed:
  "shaped_buffer_mem b = None \<Longrightarrow> shaped_buffer b = BadOptionalAccess"
  by (simp add: shaped_buffer_def)

lemma Release_consumes: "shaped_buffer_mem (snd (Release b)) = None"
  by (simp add: Release_def split: option.splits)

lemma DestructureTuple_consumes:
  "DestructureTuple b = (Returns (Inr children), b') \<Longrightarrow> shaped_buffer_mem b' = None"
  by (auto simp add: DestructureTuple_def shape_of_def shaped_buffer_def Release_def Let_def
      split: option.splits if_splits)

text \<open>
  On a buffer that was released, or destructured with success, \<open>ToPython\<close> and
  \<open>DestructureTuple\<close> fail: both reach the optional through \<open>shaped_buffer()\<close>, whose
  checked access \<open>value()\<close> raises \<open>bad_optional_access\<close>, and the buffer stays consumed.
\<close>

lemma consumed_buffer_raises:
  assumes "b' = snd (Release b) \<or> (\<exists>children. DestructureTuple b = (Returns (Inr children), b'))"
  shows "ToPython client b' = BadOptionalAccess \<and> DestructureTuple b' = (BadOptionalAccess, b')"
proof -
  from assms have "shaped_buffer_mem b' = None"
    by (auto simp add: Release_consumes dest: DestructureTuple_consumes)
  then have "shaped_buffer b' = BadOptionalAccess" by (rule shaped_buffer_consumed)
  then show ?thesis
    by (simp add: ToPython_def DestructureTuple_def shape_of_def)
qed

lemma consumed_buffer_raises_on_demo:
  "ToPython demo_client (snd (Release (new_PyLocalBuffer demo_result))) = BadOptionalAccess
   \<and> fst (DestructureTuple (snd (Release (new_PyLocalBuffer demo_result)))) = BadOptionalAccess
   \<and> ToPython demo_client (snd (DestructureTuple demo_tuple_buffer)) = BadOptionalAccess
   \<and> fst (DestructureTuple (snd (DestructureTuple demo_tuple_buffer))) = BadOptionalAccess"
proof -
  have d: "\<exists>children. DestructureTuple demo_tuple_buffer =
             (Returns (Inr children), snd (DestructureTuple demo_tuple_buffer))"
    by (simp add: DestructureTuple_def demo_tuple_buffer_def shape_of_def shaped_buffer_def
        new_PyLocalBuffer_def Release_def)
  from consumed_buffer_raises [of "snd (Release (new_PyLocalBuffer demo_result))"
         "new_PyLocalBuffer demo_result" demo_client]
       consumed_buffer_raises [of "snd (DestructureTuple demo_tuple_buffer)" demo_tuple_buffer
         demo_client] d
  show ?thesis by simp
qed

text \<open>
  C3. A consumed buffer is to fail on \<open>ToPython\<close>, \<open>DestructureTuple\<close> and \<open>Release\<close> alike.
  The first two do, as shown above. \<open>Release\<close> does not: where its siblings go through
  the checked \<open>value()\<close>, it moves out of \<open>*shaped_buffer_\<close> without a check and returns a
  \<open>ScopedShapedBuffer\<close>. On a buffer released once, the second \<open>Release\<close> raises nothing
  and returns no error; its behaviour is undefined.
\<close>

theorem Release_twice_unchecked:
  "fst (Release (snd (Release (new_PyLocalBuffer demo_result)))) = Undefined"
  by (simp add: Release_def new_PyLocalBuffer_def)

section \<open>One replica: \<open>Execute\<close> and \<open>ExecutePerReplica\<close>\<close>





section \<open>Failures of replicas\<close>

lemma execute_calls:
  "fst (execute client e argument_handles r) = Returns x \<Longrightarrow>
   snd (execute client e argument_handles r) = [Run_call r (device_at (device_assignment_mem e) r 0)]"
  by (cases "argument_buffers_of (argument_handles ! r)") (simp_all add: execute_def Let_def)

lemma returned_results_all:
  "(\<forall>i<length xs. \<exists>y. xs ! i = Returns y) \<Longrightarrow>
   \<exists>ys. returned_results xs = Returns ys \<and> length ys = length xs
        \<and> (\<forall>i<length xs. xs ! i = Returns (ys ! i))"
proof (induction xs)
  case Nil
  then show ?case by simp
next
  case (Cons x xs)
  from Cons.prems have "\<exists>y. (x # xs) ! 0 = Returns y" by blast
  then obtain y where y: "x = Returns y" by auto
  from Cons.prems have "\<forall>i<length xs. \<exists>y. xs ! i = Returns y" by fastforce
  from Cons.IH [OF this] obtain ys where ys: "returned_results xs = Returns ys"
    "length ys = length xs" "\<forall>i<length xs. xs ! i = Returns (ys ! i)" by blast
  have "returned_results (x # xs) = Returns (y # ys)" using y ys(1) by simp
  moreover have "length (y # ys) = length (x # xs)" using ys(2) by simp
  moreover have "\<forall>i<length (x # xs). (x # xs) ! i = Returns ((y # ys) ! i)"
    using y ys(3) by (auto simp add: nth_Cons split: nat.splits)
  ultimately show ?case by blast
qed

lemma wrap_results_first_failure:
  "k < length rs \<Longrightarrow> rs ! k = Inl st \<Longrightarrow> (\<forall>j<k. \<not> isl (rs ! j)) \<Longrightarrow>
   wrap_results a rs = Inl (AppendStatus st (replica_context (a + k)))"
proof (induction rs arbitrary: k a)
  case Nil
  then show ?case by simp
next
  case (Cons r rs)
  show ?case
  proof (cases k)
    case 0
    with Cons.prems show ?thesis by simp
  next
    case (Suc k')
    with Cons.prems have "\<not> isl r" by auto
    then obtain sb where sb: "r = Inr sb" by (cases r) auto
    from Cons.prems Suc have "k' < length rs" "rs ! k' = Inl st" "\<forall>j<k'. \<not> isl (rs ! j)"
      by auto
    from Cons.IH [OF this, of "Suc a"] sb Suc show ?thesis by simp
  qed
qed

lemma concat_singletons:
  "(\<And>x. x \<in> set xs \<Longrightarrow> g x = [f x]) \<Longrightarrow> concat (map g xs) = map f xs"
  by (induction xs) simp_all

lemma string_of_nat_value:
  "foldl (\<lambda>a c. 10 * a + (of_char c - 48)) (0::nat) (string_of_nat n) = n"
proof (induction n rule: string_of_nat.induct)
  case (1 n)
  show ?case
  proof (cases "n < 10")
    case True
    then show ?thesis
      by (subst string_of_nat.simps) simp
  next
    case False
    have m: "(48 + n mod 10) mod 256 = 48 + n mod 10"
      by (rule mod_less) (simp add: less_le_trans [OF _ order_refl] add_strict_left_mono
          [of "n mod 10" 208 48, simplified] less_trans [OF mod_less_divisor])
    from False "1.IH" have "foldl (\<lambda>a c. 10 * a + (of_char c - 48)) (0::nat)
         (string_of_nat (n div 10)) = n div 10" by simp
    with False m show ?thesis
      by (subst string_of_nat.simps) simp
  qed
qed

lemma string_of_nat_inj:
  assumes "string_of_nat k' = string_of_nat k"
  shows "k' = k"
proof -
  have "k' = foldl (\<lambda>a c. 10 * a + (of_char c - 48)) (0::nat) (string_of_nat k')"
    by (simp only: string_of_nat_value)
  also have "\<dots> = foldl (\<lambda>a c. 10 * a + (of_char c - 48)) (0::nat) (string_of_nat k)"
    by (simp only: assms)
  also have "\<dots> = k" by (simp only: string_of_nat_value)
  finally show ?thesis .
qed

text \<open>
  C5. Take a run of more than one replica in which every replica's \<open>execute\<close> hands back
  a result and replica \<open>k\<close> is the lowest index whose result is a failure. If the wait for
  the other replicas ends in time, \<open>ExecutePerReplica\<close> returns the failure of replica
  \<open>k\<close>, by index and whatever the order in which the replicas finished: the status has
  the code of that failure and its message followed by the text \<open>while running replica k
  of a replicated computation\<close>, with \<open>k\<close> printed in decimal; no other replica index
  prints the same text. If the wait does not end in time, no error is reported at all:
  the process is terminated. So an error is reported only after the run of every
  replica, failing or not, has been made and has ended; no replica's result is dropped
  while its run is still under way.
\<close>

theorem ExecutePerReplica_first_failure:
  assumes len: "length argument_handles = exe_num_replicas e"
      and dev: "exe_num_replicas e \<le> device_count client"
      and multi: "exe_num_replicas e \<noteq> 1"
      and returns: "\<forall>r<exe_num_replicas e. \<exists>x. fst (execute client e argument_handles r) = Returns x"
      and k: "k < exe_num_replicas e"
      and fails: "fst (execute client e argument_handles k) = Returns (Inl st)"
      and least: "\<forall>j<k. \<exists>sb. fst (execute client e argument_handles j) = Returns (Inr sb)"
  shows "ExecutePerReplica client e all_done_in_time argument_handles =
           (if all_done_in_time
            then Returns (Inl (Status (status_code st)
                   (status_message st @ '': '' @ ''while running replica '' @ string_of_nat k @
                    '' of a replicated computation (other replicas may have failed as well).'')))
            else Fatal,
            map (\<lambda>r. Run_call r (device_at (device_assignment_mem e) r 0))
              [0..<exe_num_replicas e])
         \<and> (\<forall>k'. ''while running replica '' @ string_of_nat k' @
                   '' of a replicated computation (other replicas may have failed as well).''
                 = ''while running replica '' @ string_of_nat k @
                   '' of a replicated computation (other replicas may have failed as well).''
                 \<longrightarrow> k' = k)"
proof -
  let ?n = "exe_num_replicas e"
  let ?runs = "map (execute client e argument_handles) [0..<?n]"
  have "\<forall>i<length (map fst ?runs). \<exists>y. map fst ?runs ! i = Returns y"
    using returns by simp
  from returned_results_all [OF this] obtain results where
    res: "returned_results (map fst ?runs) = Returns results"
    and rlen: "length results = ?n"
    and each: "\<forall>i<?n. fst (execute client e argument_handles i) = Returns (results ! i)"
    by auto
  have rk: "results ! k = Inl st" using each k fails by auto
  have rj: "\<forall>j<k. \<not> isl (results ! j)"
  proof (intro allI impI)
    fix j assume j: "j < k"
    with least obtain sb where "fst (execute client e argument_handles j) = Returns (Inr sb)"
      by blast
    moreover from j k each have "fst (execute client e argument_handles j) = Returns (results ! j)"
      by simp
    ultimately show "\<not> isl (results ! j)" by simp
  qed
  have wrapped: "wrap_results 0 results = Inl (AppendStatus st (replica_context k))"
    using wrap_results_first_failure [of k results st 0] k rlen rk rj by simp
  have "results ! k \<in> set results" using k rlen by simp
  with rk have failed: "list_ex is_failure results"
    by (auto simp add: list_ex_iff intro!: bexI [of _ "Inl st"])
  have "concat (map (\<lambda>r. snd (execute client e argument_handles r)) [0..<?n]) =
          map (\<lambda>r. Run_call r (device_at (device_assignment_mem e) r 0)) [0..<?n]"
  proof (rule concat_singletons)
    fix r assume "r \<in> set [0..<?n]"
    then have "r < ?n" by simp
    with returns obtain x where "fst (execute client e argument_handles r) = Returns x" by blast
    then show "snd (execute client e argument_handles r) =
                 [Run_call r (device_at (device_assignment_mem e) r 0)]"
      by (rule execute_calls)
  qed
  then have calls: "concat (map snd ?runs) =
          map (\<lambda>r. Run_call r (device_at (device_assignment_mem e) r 0)) [0..<?n]"
    by (simp add: comp_def)
  have call: "ExecutePerReplica client e all_done_in_time argument_handles =
           (if all_done_in_time then Returns (Inl (AppendStatus st (replica_context k)))
            else Fatal,
            map (\<lambda>r. Run_call r (device_at (device_assignment_mem e) r 0)) [0..<?n])"
    using len dev multi res wrapped calls failed
    by (simp add: ExecutePerReplica_def Let_def)
  have names: "k' = k"
    if "''while running replica '' @ string_of_nat k' @
          '' of a replicated computation (other replicas may have failed as well).''
        = ''while running replica '' @ string_of_nat k @
          '' of a replicated computation (other replicas may have failed as well).''" for k'
  proof -
    from that have "string_of_nat k' = string_of_nat k"
      by (simp only: same_append_eq append_same_eq)
    then show ?thesis by (rule string_of_nat_inj)
  qed
  show ?thesis
  proof (intro conjI allI impI)
    show "ExecutePerReplica client e all_done_in_time argument_handles =
           (if all_done_in_time
            then Returns (Inl (Status (status_code st)
                   (status_message st @ '': '' @ ''while running replica '' @ string_of_nat k @
                    '' of a replicated computation (other replicas may have failed as well).'')))
            else Fatal,
            map (\<lambda>r. Run_call r (device_at (device_assignment_mem e) r 0))
              [0..<exe_num_replicas e])"
      unfolding call AppendStatus_def replica_context_def by (rule refl)
  next
    fix k'
    assume "''while running replica '' @ string_of_nat k' @
              '' of a replicated computation (other replicas may have failed as well).''
            = ''while running replica '' @ string_of_nat k @
              '' of a replicated computation (other replicas may have failed as well).''"
    then show "k' = k" by (rule names)
  qed
qed


theorem ExecutePerReplica_first_failure_witness:
  "ExecutePerReplica demo_client (demo_executable 0 3) True [[], [], []] =
     (Returns (Inl (Status Internal
        ''device 1 failed: while running replica 1 of a replicated computation (other replicas may have failed as well).'')),
      [Run_call 0 0, Run_call 1 1, Run_call 2 2])
   \<and> ExecutePerReplica demo_client (demo_executable 0 3) False [[], [], []] =
     (Fatal, [Run_call 0 0, Run_call 1 1, Run_call 2 2])"
proof -
  have n: "exe_num_replicas (demo_executable 0 3) = 3"
    by (simp add: exe_num_replicas_def demo_executable_def)
  have ex: "fst (execute demo_client (demo_executable 0 3) [[], [], []] r) =
              Returns (if r = 1 then Inl (Status Internal ''device 1 failed'')
                       else Inr (demo_result\<lparr>device_ordinal := int r\<rparr>))" if "r < 3" for r
    using that
    by (auto simp add: execute_def demo_executable_def demo_assignment_def demo_Run_def
        run_options_def Let_def nth_Cons split: nat.splits)
  have h1: "length [[], [], [] :: PyLocalBuffer list] = exe_num_replicas (demo_executable 0 3)"
    using n by simp
  have h2: "exe_num_replicas (demo_executable 0 3) \<le> device_count demo_client"
    using n by (simp add: demo_client_def)
  have h3: "exe_num_replicas (demo_executable 0 3) \<noteq> 1" using n by simp
  have h4: "\<forall>r<exe_num_replicas (demo_executable 0 3).
              \<exists>x. fst (execute demo_client (demo_executable 0 3) [[], [], []] r) = Returns x"
    using n ex by simp
  have h5: "1 < exe_num_replicas (demo_executable 0 3)" using n by simp
  have h6: "fst (execute demo_client (demo_executable 0 3) [[], [], []] 1) =
              Returns (Inl (Status Internal ''device 1 failed''))"
    using ex [of 1] by simp
  have h7: "\<forall>j<1. \<exists>sb. fst (execute demo_client (demo_executable 0 3) [[], [], []] j) =
              Returns (Inr sb)"
    using ex [of 0] by simp
  have "[0..<exe_num_replicas (demo_executable 0 3)] = [0, 1, 2]"
    using n by (simp add: upt_rec)
  moreover have "device_at (device_assignment_mem (demo_executable 0 3)) r 0 = int r" for r
    by (simp add: demo_executable_def demo_assignment_def)
  moreover have "string_of_nat 1 = ''1''" by code_simp
  ultimately show ?thesis
    using ExecutePerReplica_first_failure [OF h1 h2 h3 h4 h5 h6 h7, of True, THEN conjunct1]
          ExecutePerReplica_first_failure [OF h1 h2 h3 h4 h5 h6 h7, of False, THEN conjunct1]
    by simp
qed

section \<open>Destructuring a tuple\<close>

lemma indices_from:
  "map snd (ForEachSubshape_from k ss) =
     concat (map (\<lambda>i. map ((#) (k + i)) (indices (ss ! i))) [0..<length ss])"
proof (induction ss arbitrary: k)
  case Nil
  then show ?case by simp
next
  case (Cons s ss)
  have "[0..<length (s # ss)] = 0 # map Suc [0..<length ss]"
    by (simp add: upt_conv_Cons map_Suc_upt del: upt_Suc)
  then show ?case
    by (simp add: Cons.IH comp_def case_prod_beta del: upt_Suc)
qed

lemma indices_Tuple:
  "indices (Tuple ss) = [] # concat (map (\<lambda>i. map ((#) i) (indices (ss ! i))) [0..<length ss])"
  using indices_from [of 0 ss] by simp

lemma distinct_map_Cons: "distinct xs \<Longrightarrow> distinct (map ((#) i) xs)"
  by (simp add: distinct_map inj_on_def)

lemma indices_distinct_aux:
  "distinct (indices s)"
  "distinct (map snd (ForEachSubshape_from k ss)) \<and>
   (\<forall>x \<in> set (map snd (ForEachSubshape_from k ss)). \<exists>i y. x = i # y \<and> k \<le> i)"
proof (induction s and k ss rule: ForEachSubshape_ForEachSubshape_from.induct)
  case (1 t ds l)
  then show ?case by simp
next
  case (2 ss)
  then show ?case by auto
next
  case (3 i)
  then show ?case by simp
next
  case (4 i s ss)
  have a: "distinct (map ((#) i) (indices s))"
    using "4.IH"(1) by (rule distinct_map_Cons)
  have b: "set (map ((#) i) (indices s)) \<inter> set (map snd (ForEachSubshape_from (Suc i) ss)) = {}"
    using "4.IH"(2) by fastforce
  have c: "map snd (ForEachSubshape_from i (s # ss)) =
             map ((#) i) (indices s) @ map snd (ForEachSubshape_from (Suc i) ss)"
    by (simp add: comp_def case_prod_beta)
  show ?case
    unfolding c using a b "4.IH"(2) by fastforce
qed

lemma move_region_fold:
  "distinct idxs \<Longrightarrow>
   foldl (move_region i) (T, C) idxs =
     (\<lambda>x. if x \<in> (#) i ` set idxs then null_memory else T x,
      \<lambda>x. if x \<in> set idxs then T (i # x) else C x)"
proof (induction idxs arbitrary: T C)
  case Nil
  then show ?case by simp
next
  case (Cons a idxs)
  have step: "move_region i (T, C) a = (T(i # a := null_memory), C(a := T (i # a)))"
    by (simp add: move_region_def Let_def)
  from Cons.prems have d: "distinct idxs" and na: "a \<notin> set idxs" by simp_all
  show ?case
    unfolding foldl_Cons step Cons.IH [OF d]
    using na by (auto simp add: fun_eq_iff)
qed


lemma destructure_element_step:
  "destructure_element plat ord alloc (Tuple ss) (T, results) i =
     (\<lambda>x. if x \<in> (#) i ` set (indices (ss ! i)) then null_memory else T x,
      results @ [new_PyLocalBuffer
        \<lparr>on_host_shape = ss ! i, on_device_shape = ss ! i, platform = plat,
         device_ordinal = ord, buffers = element_tree ss T i, memory_allocator = alloc\<rparr>])"
  by (simp add: destructure_element_def Let_def move_region_fold [OF indices_distinct_aux(1)]
      element_tree_def)

lemma destructure_fold:
  "m \<le> length ss \<Longrightarrow>
   foldl (destructure_element plat ord alloc (Tuple ss)) (T, []) [0..<m] =
     (\<lambda>x. if \<exists>i<m. x \<in> (#) i ` set (indices (ss ! i)) then null_memory else T x,
      map (\<lambda>i. new_PyLocalBuffer
             \<lparr>on_host_shape = ss ! i, on_device_shape = ss ! i, platform = plat,
              device_ordinal = ord, buffers = element_tree ss T i, memory_allocator = alloc\<rparr>)
        [0..<m])"
proof (induction m)
  case 0
  then show ?case by simp
next
  case (Suc m)
  then have IH: "foldl (destructure_element plat ord alloc (Tuple ss)) (T, []) [0..<m] =
     (\<lambda>x. if \<exists>i<m. x \<in> (#) i ` set (indices (ss ! i)) then null_memory else T x,
      map (\<lambda>i. new_PyLocalBuffer
             \<lparr>on_host_shape = ss ! i, on_device_shape = ss ! i, platform = plat,
              device_ordinal = ord, buffers = element_tree ss T i, memory_allocator = alloc\<rparr>)
        [0..<m])"
    by simp
  let ?Tm = "\<lambda>x. if \<exists>i<m. x \<in> (#) i ` set (indices (ss ! i)) then null_memory else T x"
  have same: "element_tree ss ?Tm m = element_tree ss T m"
    by (auto simp add: element_tree_def fun_eq_iff)
  have tree: "(\<lambda>x. if x \<in> (#) m ` set (indices (ss ! m)) then null_memory else ?Tm x) =
              (\<lambda>x. if \<exists>i<Suc m. x \<in> (#) i ` set (indices (ss ! i)) then null_memory else T x)"
    by (auto simp add: fun_eq_iff less_Suc_eq)
  show ?case
    by (simp only: upt_Suc_append [OF le0] foldl_append foldl_Cons foldl_Nil IH
        destructure_element_step same tree map_append list.map)
qed


lemma regions_of_element:
  "regions_of (ss ! i) (element_tree ss T i) = map T (map ((#) i) (indices (ss ! i)))"
  by (simp add: regions_of_def element_tree_def comp_def)

lemma concat_map_map: "concat (map (\<lambda>i. map f (g i)) xs) = map f (concat (map g xs))"
  by (induction xs) simp_all

lemma regions_of_Tuple_tl:
  "tl (regions_of (Tuple ss) T) =
     map T (concat (map (\<lambda>i. map ((#) i) (indices (ss ! i))) [0..<length ss]))"
  unfolding regions_of_def indices_Tuple by simp

text \<open>
  C6, as the claim states it: the regions of the children together would be the regions
  of the parent, and no region would be owned by two children. The region at the root of
  the parent's tree, the index table of the tuple itself, is moved to no child: the loop
  only visits indices \<open>i # index\<close>. On a tuple of two arrays with regions 1 (root), 2 and 3
  the children own 2 and 3 only. And a parent whose two elements share a region hands
  that region to both children.
\<close>

theorem DestructureTuple_root_region_not_moved:
  "owned_regions demo_tuple_buffer = [DeviceMemoryBase 1 8, DeviceMemoryBase 2 8, DeviceMemoryBase 3 8]
   \<and> (case fst (DestructureTuple demo_tuple_buffer) of
        Returns (Inr children) \<Rightarrow>
          map owned_regions children = [[DeviceMemoryBase 2 8], [DeviceMemoryBase 3 8]]
      | _ \<Rightarrow> False)
   \<and> owned_regions demo_aliased_buffer =
        [DeviceMemoryBase 1 8, DeviceMemoryBase 2 8, DeviceMemoryBase 2 8]
   \<and> (case fst (DestructureTuple demo_aliased_buffer) of
        Returns (Inr children) \<Rightarrow>
          map owned_regions children = [[DeviceMemoryBase 2 8], [DeviceMemoryBase 2 8]]
      | _ \<Rightarrow> False)"
  by (simp add: owned_regions_def regions_of_def demo_tuple_buffer_def demo_aliased_buffer_def
      new_PyLocalBuffer_def demo_regions_def DestructureTuple_def shape_of_def shaped_buffer_def
      Release_def destructure_elements_def TupleElementCount_def destructure_element_def
      move_region_def Let_def upt_rec)

text \<open>
  C6, amended: for an intact buffer whose shape is a tuple of \<open>n\<close> elements,
  \<open>DestructureTuple\<close> returns \<open>n\<close> children and leaves the parent consumed; child \<open>i\<close> has
  the shape of element \<open>i\<close> and holds, at each index of that shape, the region the parent
  held under element \<open>i\<close> at that index; the regions of the children, in order, are
  exactly the parent's regions without the one at the root, each as often as the parent
  held it, so that when the parent's regions are pairwise distinct no region is owned by
  two children; and in the tree of the released \<open>tuple_buffer\<close> every entry below the
  root is null and the root's region stays.
\<close>

theorem DestructureTuple_partition:
  assumes intact: "shaped_buffer_mem b = Some sb"
      and tuple: "on_device_shape sb = Tuple ss"
  shows "\<exists>children.
           DestructureTuple b = (Returns (Inr children), b\<lparr>shaped_buffer_mem := None\<rparr>)
         \<and> length children = length ss
         \<and> (\<forall>i<length ss. \<exists>child.
               shaped_buffer_mem (children ! i) = Some child
             \<and> on_device_shape child = ss ! i
             \<and> (\<forall>index \<in> set (map snd (ForEachSubshape (ss ! i))).
                   buffers child index = buffers sb (i # index)))
         \<and> concat (map owned_regions children) = tl (regions_of (Tuple ss) (buffers sb))
         \<and> (distinct (regions_of (Tuple ss) (buffers sb))
              \<longrightarrow> distinct (concat (map owned_regions children)))
         \<and> fst (destructure_elements (Tuple ss) sb (memory_allocator sb)) [] = buffers sb []
         \<and> (\<forall>index \<in> set (tl (map snd (ForEachSubshape (Tuple ss)))).
               fst (destructure_elements (Tuple ss) sb (memory_allocator sb)) index = null_memory)"
proof -
  let ?child = "\<lambda>i. new_PyLocalBuffer
             \<lparr>on_host_shape = ss ! i, on_device_shape = ss ! i, platform = platform sb,
              device_ordinal = device_ordinal sb, buffers = element_tree ss (buffers sb) i,
              memory_allocator = memory_allocator sb\<rparr>"
  let ?children = "map ?child [0..<length ss]"
  let ?residue = "\<lambda>x. if \<exists>i<length ss. x \<in> (#) i ` set (indices (ss ! i)) then null_memory
                      else buffers sb x"
  have loop: "destructure_elements (Tuple ss) sb (memory_allocator sb) = (?residue, ?children)"
    unfolding destructure_elements_def TupleElementCount_def
    using destructure_fold [of "length ss" ss] by simp
  have call: "DestructureTuple b = (Returns (Inr ?children), b\<lparr>shaped_buffer_mem := None\<rparr>)"
    using intact tuple loop
    by (simp add: DestructureTuple_def shape_of_def shaped_buffer_def Release_def)
  have len: "length ?children = length ss" by simp
  have each: "\<forall>i<length ss. \<exists>child.
               shaped_buffer_mem (?children ! i) = Some child
             \<and> on_device_shape child = ss ! i
             \<and> (\<forall>index \<in> set (indices (ss ! i)). buffers child index = buffers sb (i # index))"
    by (simp add: new_PyLocalBuffer_def element_tree_def)
  have owned: "owned_regions (?child i) = map (buffers sb) (map ((#) i) (indices (ss ! i)))" for i
    using regions_of_element [of ss i "buffers sb"]
    by (simp add: owned_regions_def new_PyLocalBuffer_def)
  have "concat (map owned_regions ?children) =
          concat (map (\<lambda>i. map (buffers sb) (map ((#) i) (indices (ss ! i)))) [0..<length ss])"
    by (simp add: comp_def owned)
  also have "\<dots> = tl (regions_of (Tuple ss) (buffers sb))"
    unfolding regions_of_Tuple_tl by (rule concat_map_map)
  finally have union: "concat (map owned_regions ?children) = tl (regions_of (Tuple ss) (buffers sb))" .
  have disj: "distinct (regions_of (Tuple ss) (buffers sb))
              \<longrightarrow> distinct (concat (map owned_regions ?children))"
    unfolding union by (simp add: distinct_tl)
  have root: "fst (destructure_elements (Tuple ss) sb (memory_allocator sb)) [] = buffers sb []"
    unfolding loop by auto
  have cleared: "\<forall>index \<in> set (tl (indices (Tuple ss))).
               fst (destructure_elements (Tuple ss) sb (memory_allocator sb)) index = null_memory"
    unfolding loop indices_Tuple by (auto simp add: image_iff)
  from call len each union disj root cleared show ?thesis by blast
qed


theorem DestructureTuple_partition_witness:
  "\<exists>children.
      DestructureTuple demo_tuple_buffer =
        (Returns (Inr children), demo_tuple_buffer\<lparr>shaped_buffer_mem := None\<rparr>)
    \<and> length children = 2
    \<and> concat (map owned_regions children) = [DeviceMemoryBase 2 8, DeviceMemoryBase 3 8]"
proof -
  let ?ss = "[Array F32 [] (Some []), Array S32 [] (Some [])]"
  let ?sb = "\<lparr>on_host_shape = Tuple ?ss, on_device_shape = Tuple ?ss,
        platform = 0, device_ordinal = 0, buffers = demo_regions (Tuple ?ss),
        memory_allocator = 0\<rparr>"
  have h1: "shaped_buffer_mem demo_tuple_buffer = Some ?sb"
    by (simp add: demo_tuple_buffer_def new_PyLocalBuffer_def)
  have h2: "on_device_shape ?sb = Tuple ?ss" by simp
  have r: "tl (regions_of (Tuple ?ss) (buffers ?sb)) = [DeviceMemoryBase 2 8, DeviceMemoryBase 3 8]"
    by (simp add: regions_of_def demo_regions_def)
  from DestructureTuple_partition [OF h1 h2] r show ?thesis by auto
qed


section \<open>Round trip\<close>

lemma those_map_Some: "those (map Some xs) = Some xs"
  by (induction xs) simp_all

lemma transfer_leaves_ok:
  "(\<forall>literal leaf. TransferLiteralToDeviceAsync client stream literal leaf = None) \<Longrightarrow>
   length ls = length ishapes \<Longrightarrow>
   transfer_leaves client stream buffer ordinal ishapes ls =
     (None, map (\<lambda>p. TransferLiteralToDeviceAsync_call stream (snd p) (buffers buffer (snd (fst p))))
              (zip ishapes ls))"
proof (induction ishapes arbitrary: ls)
  case Nil
  then show ?case by simp
next
  case (Cons ish ishapes)
  then obtain l ls' where ls: "ls = l # ls'" by (cases ls) auto
  with Cons.prems have "length ls' = length ishapes" by simp
  from Cons.IH [OF Cons.prems(1) this] Cons.prems(1) ls show ?case
    by (simp add: leaf_buffer_def)
qed

lemma perform_copies_other:
  "r \<notin> set (map fst rl) \<Longrightarrow>
   foldl perform memory (map (\<lambda>p. TransferLiteralToDeviceAsync_call stream (snd p) (fst p)) rl) r =
     memory r"
  by (induction rl arbitrary: memory) auto

lemma perform_copies:
  "distinct (map fst rl) \<Longrightarrow>
   map (foldl perform memory (map (\<lambda>p. TransferLiteralToDeviceAsync_call stream (snd p) (fst p)) rl))
     (map fst rl) = map Some (map snd rl)"
proof (induction rl arbitrary: memory)
  case Nil
  then show ?case by simp
next
  case (Cons p rl)
  from Cons.prems have d: "distinct (map fst rl)" and n: "fst p \<notin> set (map fst rl)" by simp_all
  show ?case
    using Cons.IH [OF d] perform_copies_other [OF n] by simp
qed


text \<open>
  C9, as the claim states it: the value that comes back would be equal to \<open>T\<close>. On the
  concrete client the tuple of two arrays is given without layouts; the transfer
  succeeds, and what \<open>ToPython\<close> returns has the same leaves under the shape with the
  compact layouts the layout service chose, which is not the tree that went in.
\<close>

theorem round_trip_changes_layouts:
  "\<exists>b. fst (FromPython demo_tree (demo_reading_client demo_tree) 0) = Inr b
      \<and> ToPython (demo_reading_client demo_tree) b =
          Returns (Inr \<lparr>shape = Tuple [Array F32 [2] (Some [0]), Array S32 [] (Some [])],
                        leaves = [[1, 2], [3]]\<rparr>)
      \<and> ToPython (demo_reading_client demo_tree) b \<noteq> Returns (Inr demo_tree)"
  by (simp add: FromPython_def ToPython_def demo_reading_client_def demo_client_def demo_tree_def
      TransferHostToDeviceAsync_def demo_allocate_def GetLeafShapes_def leaf_buffer_def
      demo_regions_def shaped_buffer_def new_PyLocalBuffer_def read_back_def device_after_def)

text \<open>
  C9, amended. Let \<open>argument\<close> be a host value with tree \<open>T\<close>, whose leaves are as many as
  the leaf shapes of its shape. Suppose the backend does its part: a stream is borrowed,
  the compact layout keeps the leaf indices of the shape, the allocated buffer has the
  compact shape and a region of its own for every leaf, the tuple tables and the copies
  are accepted, and buffers are read back from the device memory the transfer leaves
  behind. Then \<open>FromPython\<close> returns a buffer, and \<open>ToPython\<close> of that buffer returns the
  Python value of the literal that holds exactly \<open>T\<close>'s leaves, in \<open>T\<close>'s order, under the
  shape with the compact layouts: every leaf was copied to the region of its own leaf
  index. The shape that comes back is the one the layout service chose, not \<open>T\<close>'s own.
\<close>

theorem round_trip:
  assumes tree: "GetPythonBufferTree client argument = Inr tree"
      and wf: "length (leaves tree) = length (GetLeafShapes (shape tree))"
      and stream: "BorrowStream client ordinal = Inr stream"
      and layout: "ChooseCompactLayoutForShape client (shape tree) = Inr compact"
      and same_leaves: "map snd (GetLeafShapes compact) = map snd (GetLeafShapes (shape tree))"
      and alloc: "AllocateScopedShapedBuffer client compact (backend_memory_allocator client) ordinal
                    = Inr buffer"
      and alloc_shape: "on_host_shape buffer = compact"
      and alloc_distinct: "distinct (map (\<lambda>indexed_shape. buffers buffer (snd indexed_shape))
                                      (GetLeafShapes compact))"
      and tables: "WriteTupleIndexTablesAsync client stream buffer = None"
      and copies: "\<forall>literal leaf. TransferLiteralToDeviceAsync client stream literal leaf = None"
      and device: "ShapedBufferToLiteral client =
                     read_back (device_after (snd (FromPython argument client ordinal)) memory)"
  shows "\<exists>b. fst (FromPython argument client ordinal) = Inr b
            \<and> ToPython client b =
                Returns (LiteralToPython client (Literal compact (leaves tree)))"
proof -
  let ?ishapes = "GetLeafShapes compact"
  let ?regions = "map (\<lambda>indexed_shape. buffers buffer (snd indexed_shape)) ?ishapes"
  let ?rl = "zip ?regions (leaves tree)"
  let ?copies = "map (\<lambda>p. TransferLiteralToDeviceAsync_call stream (snd p) (fst p)) ?rl"
  have len: "length (leaves tree) = length ?ishapes"
    using wf same_leaves by (metis length_map)
  have tl: "transfer_leaves client stream buffer ordinal ?ishapes (leaves tree) = (None, ?copies)"
    unfolding transfer_leaves_ok [OF copies len]
    by (simp add: zip_map1 comp_def case_prod_beta)
  have transfer: "TransferHostToDeviceAsync tree ordinal client stream =
          (Inr (new_PyLocalBuffer buffer),
           AllocateScopedShapedBuffer_call compact ordinal #
           WriteTupleIndexTablesAsync_call stream # ?copies)"
    using layout alloc tables tl by (simp add: TransferHostToDeviceAsync_def)
  have fp: "FromPython argument client ordinal =
          (Inr (new_PyLocalBuffer buffer),
           BorrowStream_call ordinal # (AllocateScopedShapedBuffer_call compact ordinal #
           WriteTupleIndexTablesAsync_call stream # ?copies) @ [BlockHostUntilDone_call stream])"
    using tree stream transfer by (simp add: FromPython_def)
  let ?after = "device_after (snd (FromPython argument client ordinal)) memory"
  have after: "?after = foldl perform memory ?copies"
    by (simp add: fp device_after_def)
  have fst_rl: "map fst ?rl = ?regions" and snd_rl: "map snd ?rl = leaves tree"
    using len by simp_all
  have "map ?after (map fst ?rl) = map Some (map snd ?rl)"
    unfolding after using alloc_distinct fst_rl by (intro perform_copies) simp
  then have contents: "map ?after ?regions = map Some (leaves tree)"
    using fst_rl snd_rl by simp
  have "read_back ?after buffer = Inr (Literal compact (leaves tree))"
    using contents
    by (simp add: read_back_def alloc_shape comp_def those_map_Some)
  then have "ToPython client (new_PyLocalBuffer buffer) =
               Returns (LiteralToPython client (Literal compact (leaves tree)))"
    using device
    by (simp add: ToPython_def shaped_buffer_def new_PyLocalBuffer_def)
  with fp show ?thesis by simp
qed

theorem round_trip_witness:
  "\<exists>b. fst (FromPython demo_tree (demo_reading_client demo_tree) 0) = Inr b
      \<and> ToPython (demo_reading_client demo_tree) b =
          Returns (LiteralToPython (demo_reading_client demo_tree)
                     (Literal (Tuple [Array F32 [2] (Some [0]), Array S32 [] (Some [])])
                        [[1, 2], [3]]))"
proof -
  let ?client = "demo_reading_client demo_tree"
  let ?compact = "Tuple [Array F32 [2] (Some [0]), Array S32 [] (Some [])]"
  let ?buffer = "\<lparr>on_host_shape = ?compact, on_device_shape = ?compact, platform = 0,
                  device_ordinal = 0, buffers = demo_regions ?compact, memory_allocator = 0\<rparr>"
  have same: "FromPython demo_tree ?client 0 = FromPython demo_tree demo_client 0"
    by (simp add: FromPython_def demo_reading_client_def demo_client_def demo_tree_def
        TransferHostToDeviceAsync_def demo_allocate_def GetLeafShapes_def leaf_buffer_def)
  have h1: "GetPythonBufferTree ?client demo_tree = Inr demo_tree"
    by (simp add: demo_reading_client_def demo_client_def)
  have h2: "length (leaves demo_tree) = length (GetLeafShapes (shape demo_tree))"
    by (simp add: demo_tree_def GetLeafShapes_def)
  have h3: "BorrowStream ?client 0 = Inr 0"
    by (simp add: demo_reading_client_def demo_client_def)
  have h4: "ChooseCompactLayoutForShape ?client (shape demo_tree) = Inr ?compact"
    by (simp add: demo_reading_client_def demo_client_def demo_tree_def)
  have h5: "map snd (GetLeafShapes ?compact) = map snd (GetLeafShapes (shape demo_tree))"
    by (simp add: demo_tree_def GetLeafShapes_def)
  have h6: "AllocateScopedShapedBuffer ?client ?compact (backend_memory_allocator ?client) 0 =
              Inr ?buffer"
    by (simp add: demo_reading_client_def demo_client_def demo_allocate_def)
  have h7: "on_host_shape ?buffer = ?compact" by simp
  have h8: "distinct (map (\<lambda>indexed_shape. buffers ?buffer (snd indexed_shape))
              (GetLeafShapes ?compact))"
    by (simp add: GetLeafShapes_def demo_regions_def)
  have h9: "WriteTupleIndexTablesAsync ?client 0 ?buffer = None"
    by (simp add: demo_reading_client_def demo_client_def)
  have h10: "\<forall>literal leaf. TransferLiteralToDeviceAsync ?client 0 literal leaf = None"
    by (simp add: demo_reading_client_def demo_client_def)
  have h11: "ShapedBufferToLiteral ?client =
               read_back (device_after (snd (FromPython demo_tree ?client 0)) (\<lambda>region. None))"
    unfolding same by (simp add: demo_reading_client_def)
  have l: "leaves demo_tree = [[1, 2], [3]]" by (simp add: demo_tree_def)
  from round_trip [OF h1 h2 h3 h4 h5 h6 h7 h8 h9 h10 h11] l show ?thesis by simp
qed


end
